theory Spec2Isabelle
  imports Complex_Main "HOL-Library.Word" "HOL-Library.Code_Target_Numeral"
begin

section \<open>JavaScript values\<close>

text \<open>
  The documents the program handles are JavaScript values: JSON-like trees whose
  reference slots hold either a number (wire side) or a scene-graph object owned by the
  host library (canonical side). \<open>JHost h\<close> is such a host object, identified by its
  handle \<open>h\<close> (\<^verbatim>\<open>===\<close> on objects is identity); the model gives it no properties of
  its own. An object is the list of its own enumerable properties in enumeration order.
\<close>

datatype jv =
    JUndefined
  | JNull
  | JBool bool
  | JNum real
  | JStr string
  | JHost nat
  | JArr "jv list"
  | JObj "(string \<times> jv) list"

datatype error = TypeError

type_synonym byte = "8 word"

text \<open>Assignment \<^verbatim>\<open>o[k] = v\<close> to an own property of a plain object: an existing key keeps
  its place, a new key goes last.\<close>

fun obj_set :: "(string \<times> jv) list \<Rightarrow> string \<Rightarrow> jv \<Rightarrow> (string \<times> jv) list" where
  "obj_set [] k v = [(k, v)]"
| "obj_set ((k', v') # kvs) k v = (if k' = k then (k, v) # kvs else (k', v') # obj_set kvs k v)"

section \<open>Binary container writer (serialize_glb)\<close>

text \<open>
  \<^verbatim>\<open>function getPaddedBufferSize(bufferSize) { return Math.ceil(bufferSize / 4) * 4; }\<close>
  A buffer size is a non-negative integer; the quotient is taken in the reals, as the
  JavaScript division is (it is exact on doubles for every size below \<open>2 ^ 53\<close>).
\<close>

definition getPaddedBufferSize :: "nat \<Rightarrow> nat" where
  "getPaddedBufferSize bufferSize = nat \<lceil>real bufferSize / 4\<rceil> * 4"

text \<open>
  \<^verbatim>\<open>new Uint8Array(paddedLength)\<close> is zero-filled; \<^verbatim>\<open>array.set(src)\<close> copies \<open>src\<close> over
  its first bytes (the source is never longer than the padded length here).
\<close>

definition typed_array_set :: "byte list \<Rightarrow> byte list \<Rightarrow> byte list" where
  "typed_array_set array src = src @ drop (length src) array"

text \<open>The loop \<^verbatim>\<open>for (var i = arrayBuffer.byteLength; i < paddedLength; i++) array[i] = paddingByte;\<close>\<close>

function fill_padding :: "nat \<Rightarrow> nat \<Rightarrow> byte \<Rightarrow> byte list \<Rightarrow> byte list" where
  "fill_padding i paddedLength paddingByte array =
     (if i < paddedLength
      then fill_padding (i + 1) paddedLength paddingByte (array[i := paddingByte])
      else array)"
  by pat_completeness auto
termination
  by (relation "measure (\<lambda>(i, paddedLength, paddingByte, array). paddedLength - i)") auto

declare fill_padding.simps [simp del]

text \<open>
  \<^verbatim>\<open>getPaddedArrayBuffer(arrayBuffer, paddingByte)\<close>: the second argument is a number or is
  left out (\<open>None\<close>); \<^verbatim>\<open>paddingByte || 0\<close> turns the missing argument into 0. A store
  into a \<^verbatim>\<open>Uint8Array\<close> keeps the value modulo 256.
\<close>

definition getPaddedArrayBuffer :: "byte list \<Rightarrow> nat option \<Rightarrow> byte list" where
  "getPaddedArrayBuffer arrayBuffer paddingByte =
     (let paddingByte = (case paddingByte of None \<Rightarrow> 0 | Some b \<Rightarrow> b);
          paddedLength = getPaddedBufferSize (length arrayBuffer)
      in if paddedLength = length arrayBuffer then arrayBuffer
         else let array = typed_array_set (replicate paddedLength 0) arrayBuffer
              in if paddingByte \<noteq> 0
                 then fill_padding (length arrayBuffer) paddedLength (of_nat paddingByte) array
                 else array)"

text \<open>
  \<^verbatim>\<open>DataView.setUint32(byteOffset, value, true)\<close>: the value is reduced modulo \<open>2 ^ 32\<close>
  and stored least significant byte first (the offsets the writer uses lie inside the
  view).
\<close>

definition setUint32 :: "byte list \<Rightarrow> nat \<Rightarrow> nat \<Rightarrow> byte list" where
  "setUint32 view byteOffset v =
     (let w = v mod 2 ^ 32
      in view[byteOffset := of_nat w,
              byteOffset + 1 := of_nat (w div 2 ^ 8),
              byteOffset + 2 := of_nat (w div 2 ^ 16),
              byteOffset + 3 := of_nat (w div 2 ^ 24)])"

text \<open>The value of four bytes read as a little-endian unsigned integer.\<close>

definition le_uint32 :: "byte list \<Rightarrow> nat" where
  "le_uint32 bs = unat (bs ! 0) + 2 ^ 8 * unat (bs ! 1) + 2 ^ 16 * unat (bs ! 2) + 2 ^ 24 * unat (bs ! 3)"

definition GLB_HEADER_BYTES :: nat where "GLB_HEADER_BYTES = 12"
definition GLB_HEADER_MAGIC :: nat where "GLB_HEADER_MAGIC = 0x46546C67"
definition GLB_VERSION :: nat where "GLB_VERSION = 2"
definition GLB_CHUNK_PREFIX_BYTES :: nat where "GLB_CHUNK_PREFIX_BYTES = 8"
definition GLB_CHUNK_TYPE_JSON :: nat where "GLB_CHUNK_TYPE_JSON = 0x4E4F534A"
definition GLB_CHUNK_TYPE_BIN :: nat where "GLB_CHUNK_TYPE_BIN = 0x004E4942"

text \<open>
  The glTF document \<^verbatim>\<open>obj.json\<close> as the exporter hands it over: the members the
  program touches, each \<open>None\<close> when the member is \<^verbatim>\<open>undefined\<close>, and the remaining
  members untouched. A buffer entry is a plain object.
\<close>

record gltf_json =
  json_buffers :: "(string \<times> jv) list list option"
  extensionsUsed :: "string list option"
  extensions :: "(string \<times> jv) list option"
  json_rest :: "(string \<times> jv) list"

text \<open>
  The exporter's result \<^verbatim>\<open>obj\<close>: the document, the raw buffers, the map from scene
  nodes to node indices and the list of skins (scene objects, by handle).
\<close>

record export_obj =
  json :: gltf_json
  buffers :: "byte list list"
  nodeMap :: "nat \<Rightarrow> nat option"
  skins :: "nat list"

text \<open>
  \<^verbatim>\<open>serialize_glb(obj)\<close>. \<open>stringify\<close> stands for
  \<^verbatim>\<open>new TextEncoder().encode(JSON.stringify(outputJSON))\<close>, both built into the host.
  The assignment to \<^verbatim>\<open>outputJSON.buffers[0].byteLength\<close> raises a TypeError when the
  document declares no buffer; it changes the caller's document, which is returned with
  the container.
\<close>

definition serialize_glb ::
  "(gltf_json \<Rightarrow> byte list) \<Rightarrow> export_obj \<Rightarrow> error + (export_obj \<times> byte list)" where
  "serialize_glb stringify obj =
     (let blob = concat (buffers obj)
      in case json_buffers (json obj) of
           None \<Rightarrow> Inl TypeError
         | Some [] \<Rightarrow> Inl TypeError
         | Some (buffer0 # rest) \<Rightarrow>
             let outputJSON = (json obj)\<lparr>json_buffers :=
                   Some (obj_set buffer0 ''byteLength'' (JNum (real (length blob))) # rest)\<rparr>;
                 binaryChunk = getPaddedArrayBuffer blob None;
                 binaryChunkPrefix =
                   setUint32 (setUint32 (replicate GLB_CHUNK_PREFIX_BYTES 0) 0 (length binaryChunk))
                     4 GLB_CHUNK_TYPE_BIN;
                 jsonChunk = getPaddedArrayBuffer (stringify outputJSON) (Some 0x20);
                 jsonChunkPrefix =
                   setUint32 (setUint32 (replicate GLB_CHUNK_PREFIX_BYTES 0) 0 (length jsonChunk))
                     4 GLB_CHUNK_TYPE_JSON;
                 header = replicate GLB_HEADER_BYTES 0;
                 header = setUint32 header 0 GLB_HEADER_MAGIC;
                 header = setUint32 header 4 GLB_VERSION;
                 totalByteLength = GLB_HEADER_BYTES
                   + length jsonChunkPrefix + length jsonChunk
                   + length binaryChunkPrefix + length binaryChunk;
                 header = setUint32 header 8 totalByteLength
             in Inr (obj\<lparr>json := outputJSON\<rparr>,
                     header @ jsonChunkPrefix @ jsonChunk @ binaryChunkPrefix @ binaryChunk))"

text \<open>The four bytes that \<open>setUint32\<close> stores for a value.\<close>

definition uint32_le :: "nat \<Rightarrow> byte list" where
  "uint32_le v =
     (let w = v mod 2 ^ 32
      in [of_nat w, of_nat (w div 2 ^ 8), of_nat (w div 2 ^ 16), of_nat (w div 2 ^ 24)])"

text \<open>
  Example inputs. \<open>sample_stringify\<close> is a stand-in for the host's serializer in the
  examples: it writes every document as the two bytes of \<^verbatim>\<open>{}\<close>.
\<close>

definition sample_stringify :: "gltf_json \<Rightarrow> byte list" where
  "sample_stringify j = [0x7B, 0x7D]"

definition sample_json :: gltf_json where
  "sample_json = \<lparr>json_buffers = Some [[(''byteLength'', JNum 0)]], extensionsUsed = None,
                   extensions = None, json_rest = []\<rparr>"

definition sample_obj :: export_obj where
  "sample_obj = \<lparr>json = sample_json, buffers = [[1, 2, 3, 4, 5, 6], [7, 8, 9, 10]],
                  nodeMap = Map.empty, skins = []\<rparr>"

definition huge_buffer :: "byte list" where
  "huge_buffer = replicate (2 ^ 32) 0"

definition huge_obj :: export_obj where
  "huge_obj = \<lparr>json = sample_json, buffers = [huge_buffer], nodeMap = Map.empty, skins = []\<rparr>"

section \<open>Evaluation of JavaScript expressions\<close>

text \<open>
  An expression either yields a value or throws, and writes to the console on the way:
  the result and the messages written, in order. A throw ends the evaluation; what was
  written before it stays written.
\<close>

datatype console_msg = ConsoleLog string "jv list" | ConsoleWarn string "jv list"

type_synonym 'a js = "(error + 'a) \<times> console_msg list"

definition js_return :: "'a \<Rightarrow> 'a js" where
  "js_return x = (Inr x, [])"

definition js_throw :: "error \<Rightarrow> 'a js" where
  "js_throw e = (Inl e, [])"

definition js_bind :: "'a js \<Rightarrow> ('a \<Rightarrow> 'b js) \<Rightarrow> 'b js" where
  "js_bind m f =
     (case m of
        (Inl e, written) \<Rightarrow> (Inl e, written)
      | (Inr x, written) \<Rightarrow> (case f x of (r, written') \<Rightarrow> (r, written @ written')))"

definition nullish :: "jv \<Rightarrow> bool" where
  "nullish v = (v = JUndefined \<or> v = JNull)"

text \<open>
  The value of \<^verbatim>\<open>v.k\<close> when \<open>v\<close> is neither \<^verbatim>\<open>undefined\<close> nor \<^verbatim>\<open>null\<close>, for the
  member names \<open>k\<close> the program reads: an own property of an object, and
  \<^verbatim>\<open>undefined\<close> otherwise (no primitive or array has a member of one of these names).
\<close>

fun prop_of :: "jv \<Rightarrow> string \<Rightarrow> jv" where
  "prop_of (JObj kvs) k = (case map_of kvs k of None \<Rightarrow> JUndefined | Some v \<Rightarrow> v)"
| "prop_of v k = JUndefined"

text \<open>\<^verbatim>\<open>v.k\<close>: a TypeError on \<^verbatim>\<open>undefined\<close> and \<^verbatim>\<open>null\<close>.\<close>

definition js_get :: "jv \<Rightarrow> string \<Rightarrow> jv js" where
  "js_get v k = (if nullish v then js_throw TypeError else js_return (prop_of v k))"

text \<open>\<^verbatim>\<open>v[0]\<close>\<close>

fun js_first :: "jv \<Rightarrow> jv js" where
  "js_first JUndefined = js_throw TypeError"
| "js_first JNull = js_throw TypeError"
| "js_first (JArr xs) = js_return (case xs of [] \<Rightarrow> JUndefined | x # _ \<Rightarrow> x)"
| "js_first (JStr s) = js_return (case s of [] \<Rightarrow> JUndefined | c # _ \<Rightarrow> JStr [c])"
| "js_first (JObj kvs) = js_return (prop_of (JObj kvs) ''0'')"
| "js_first v = js_return JUndefined"

text \<open>
  \<^verbatim>\<open>a.map(f)\<close>: the callback runs on the elements in order. On anything but an array
  the call throws a TypeError (\<^verbatim>\<open>undefined\<close> has no members, and no other value of
  the model has a callable \<^verbatim>\<open>map\<close>).
\<close>

fun js_map_list :: "('a \<Rightarrow> 'b js) \<Rightarrow> 'a list \<Rightarrow> 'b list js" where
  "js_map_list f [] = js_return []"
| "js_map_list f (x # xs) =
     js_bind (f x) (\<lambda>y. js_bind (js_map_list f xs) (\<lambda>ys. js_return (y # ys)))"

fun js_array_map :: "(jv \<Rightarrow> jv js) \<Rightarrow> jv \<Rightarrow> jv js" where
  "js_array_map f (JArr xs) = js_bind (js_map_list f xs) (\<lambda>ys. js_return (JArr ys))"
| "js_array_map f v = js_throw TypeError"

text \<open>Decimal digits of an array index, as a property name.\<close>

function show_nat :: "nat \<Rightarrow> string" where
  "show_nat n =
     (if n < 10 then [char_of (48 + n)]
      else show_nat (n div 10) @ [char_of (48 + n mod 10)])"
  by pat_completeness auto
termination
  by (relation "measure id") auto

declare show_nat.simps [simp del]

text \<open>
  \<^verbatim>\<open>for (let k in v)\<close> with the value \<^verbatim>\<open>v[k]\<close> read in the body: the own enumerable
  properties of an object, the indices of an array or a string, nothing for
  \<^verbatim>\<open>undefined\<close>, \<^verbatim>\<open>null\<close> and the other primitives.
\<close>

fun for_in :: "jv \<Rightarrow> (string \<times> jv) list" where
  "for_in (JObj kvs) = map (\<lambda>k. (k, prop_of (JObj kvs) k)) (map fst kvs)"
| "for_in (JArr xs) = zip (map show_nat [0..<length xs]) xs"
| "for_in (JStr s) = zip (map show_nat [0..<length s]) (map (\<lambda>c. JStr [c]) s)"
| "for_in v = []"

text \<open>
  The object \<open>texProp\<close> made by \<^verbatim>\<open>new Map()\<close>: its own properties, and what it inherits
  from. It starts with the prototype of maps; an assignment to \<^verbatim>\<open>__proto__\<close> can put
  another object or \<^verbatim>\<open>null\<close> in its place.
\<close>

datatype texProp_prototype = MapPrototype | ReplacedBy jv

fun is_object_or_null :: "jv \<Rightarrow> bool" where
  "is_object_or_null JNull = True"
| "is_object_or_null (JHost h) = True"
| "is_object_or_null (JArr xs) = True"
| "is_object_or_null (JObj kvs) = True"
| "is_object_or_null v = False"

text \<open>
  Whether the name \<^verbatim>\<open>__proto__\<close> still reaches the prototype accessor of
  \<^verbatim>\<open>Object.prototype\<close>: not below \<^verbatim>\<open>null\<close>, and not below an object that has a property
  of this name itself.
\<close>

fun inherits_proto_accessor :: "texProp_prototype \<Rightarrow> bool" where
  "inherits_proto_accessor MapPrototype = True"
| "inherits_proto_accessor (ReplacedBy JNull) = False"
| "inherits_proto_accessor (ReplacedBy (JObj kvs)) = (''__proto__'' \<notin> fst ` set kvs)"
| "inherits_proto_accessor (ReplacedBy v) = True"

text \<open>
  \<^verbatim>\<open>texProp[k] = v\<close> in strict mode.
  \<^item> \<^verbatim>\<open>__proto__\<close>, while the accessor is reached: an object or \<^verbatim>\<open>null\<close> becomes the
    prototype, any other value is ignored, and no own property is made.
  \<^item> \<^verbatim>\<open>size\<close>, while the prototype is that of maps: it is an accessor without a
    setter there, and the assignment throws a TypeError.
  \<^item> Otherwise the name becomes an own property (what is inherited under another name,
    or from a replaced prototype, is writable data).
\<close>

definition map_object_set ::
  "(string \<times> jv) list \<times> texProp_prototype \<Rightarrow> string \<Rightarrow> jv
   \<Rightarrow> ((string \<times> jv) list \<times> texProp_prototype) js" where
  "map_object_set texProp k v =
     (case texProp of (props, proto) \<Rightarrow>
        if k = ''__proto__'' \<and> ''__proto__'' \<notin> fst ` set props \<and> inherits_proto_accessor proto
        then js_return (props, if is_object_or_null v then ReplacedBy v else proto)
        else if k = ''size'' \<and> proto = MapPrototype then js_throw TypeError
        else js_return (obj_set props k v, proto))"

text \<open>
  \<^verbatim>\<open>xs.findIndex(p)\<close>: the callback runs on the elements in order until it answers
  true; the result is that index, or \<open>-1\<close>. The callback is an expression of its own: it
  may throw, and it is not evaluated at all on an empty array.
\<close>

fun js_findIndex_from :: "int \<Rightarrow> ('a \<Rightarrow> bool js) \<Rightarrow> 'a list \<Rightarrow> int js" where
  "js_findIndex_from i p [] = js_return (-1)"
| "js_findIndex_from i p (x # xs) =
     js_bind (p x) (\<lambda>found. if found then js_return i else js_findIndex_from (i + 1) p xs)"

definition js_findIndex :: "('a \<Rightarrow> bool js) \<Rightarrow> 'a list \<Rightarrow> int js" where
  "js_findIndex p xs = js_findIndex_from 0 p xs"

text \<open>\<^verbatim>\<open>Array.from(new Set(xs))\<close>: a set keeps its members in the order of first insertion.\<close>

definition set_add :: "'a list \<Rightarrow> 'a \<Rightarrow> 'a list" where
  "set_add members x = (if x \<in> set members then members else members @ [x])"

definition array_from_set :: "'a list \<Rightarrow> 'a list" where
  "array_from_set xs = foldl set_add [] xs"

text \<open>
  \<^verbatim>\<open>xs[id]\<close> on an array takes \<open>id\<close> as a property key: a number or a string is the
  key itself, any other value its conversion to a string.

  The conversion of a value to a string. The text of a number is spelled out for the
  non-negative integers; \<open>None\<close> stands for a text with the digits of another number in
  it, which is no index and no name of a member. An array is its elements joined by
  commas, \<^verbatim>\<open>undefined\<close> and \<^verbatim>\<open>null\<close> counting as empty. A
  plain object is \<^verbatim>\<open>[object Object]\<close>, as is a host object; an object with an own
  property \<^verbatim>\<open>toString\<close>, which is not callable, has no primitive value and the
  conversion throws a TypeError.
\<close>

fun to_string :: "jv \<Rightarrow> string option js"
  and join_elements :: "jv list \<Rightarrow> string option js" where
  "to_string JUndefined = js_return (Some ''undefined'')"
| "to_string JNull = js_return (Some ''null'')"
| "to_string (JBool b) = js_return (Some (if b then ''true'' else ''false''))"
| "to_string (JNum r) =
     js_return (if 0 \<le> r \<and> r = real_of_int \<lfloor>r\<rfloor> then Some (show_nat (nat \<lfloor>r\<rfloor>)) else None)"
| "to_string (JStr s) = js_return (Some s)"
| "to_string (JHost h) = js_return (Some ''[object Object]'')"
| "to_string (JObj kvs) =
     (if ''toString'' \<in> fst ` set kvs then js_throw TypeError
      else js_return (Some ''[object Object]''))"
| "to_string (JArr xs) = join_elements xs"
| "join_elements [] = js_return (Some [])"
| "join_elements (x # xs) =
     js_bind (if x = JUndefined \<or> x = JNull then js_return (Some []) else to_string x) (\<lambda>first.
     if xs = [] then js_return first
     else js_bind (join_elements xs) (\<lambda>rest.
          js_return (case (first, rest) of
                       (Some a, Some b) \<Rightarrow> Some (a @ '','' @ b)
                     | _ \<Rightarrow> None)))"

text \<open>
  An array index as a property name: decimal digits without a leading zero.
\<close>

fun digits_value :: "nat \<Rightarrow> string \<Rightarrow> nat option" where
  "digits_value acc [] = Some acc"
| "digits_value acc (c # cs) =
     (if (48::nat) \<le> of_char c \<and> of_char c \<le> (57::nat)
      then digits_value (10 * acc + (of_char c - (48::nat))) cs
      else None)"

definition parse_index :: "string \<Rightarrow> nat option" where
  "parse_index s =
     (if s = [] \<or> (hd s = CHR ''0'' \<and> s \<noteq> ''0'') then None else digits_value 0 s)"

text \<open>
  A property key of an array: an index, another name, or the text of a number that is
  no index (which names nothing).
\<close>

datatype property_key = Index nat | Name string | NumberText

definition key_of_string :: "string option \<Rightarrow> property_key" where
  "key_of_string text =
     (case text of
        None \<Rightarrow> NumberText
      | Some s \<Rightarrow> (case parse_index s of Some n \<Rightarrow> Index n | None \<Rightarrow> Name s))"

fun to_property_key :: "jv \<Rightarrow> property_key js" where
  "to_property_key (JNum r) =
     js_return (if 0 \<le> r \<and> r = real_of_int \<lfloor>r\<rfloor> then Index (nat \<lfloor>r\<rfloor>) else NumberText)"
| "to_property_key v = js_bind (to_string v) (\<lambda>text. js_return (key_of_string text))"

text \<open>
  The member of an array under a key: an element, the length, or what arrays inherit
  from the host's prototypes. The inherited members (built-in functions and objects,
  \<^verbatim>\<open>undefined\<close> for a name that is none) belong to the host and are the parameter
  \<open>array_members\<close>.
\<close>

fun array_member :: "(string \<Rightarrow> jv) \<Rightarrow> jv list \<Rightarrow> property_key \<Rightarrow> jv" where
  "array_member array_members xs (Index n) = (if n < length xs then xs ! n else JUndefined)"
| "array_member array_members xs (Name s) =
     (if s = ''length'' then JNum (real (length xs)) else array_members s)"
| "array_member array_members xs NumberText = JUndefined"

text \<open>\<^verbatim>\<open>xs[id]\<close>\<close>

definition array_at :: "(string \<Rightarrow> jv) \<Rightarrow> jv list \<Rightarrow> jv \<Rightarrow> jv js" where
  "array_at array_members xs ident =
     js_bind (to_property_key ident) (\<lambda>key. js_return (array_member array_members xs key))"

section \<open>Reference mapping of the VRM extension (VrmExtensionMapper)\<close>

text \<open>The constructor argument: the three mapping callbacks.\<close>

record mapper =
  map_node :: "jv \<Rightarrow> jv js"
  map_mesh :: "jv \<Rightarrow> jv js"
  map_texture :: "jv \<Rightarrow> jv js"

text \<open>
  Each method builds an object literal; its member expressions are evaluated in the
  order written. The leading underscore of the private method names is dropped.
\<close>

definition convert_blendshape_bind :: "mapper \<Rightarrow> jv \<Rightarrow> jv js" where
  "convert_blendshape_bind m bind =
     js_bind (js_get bind ''mesh'') (\<lambda>mesh_ref.
     js_bind (map_mesh m mesh_ref) (\<lambda>mesh.
     js_bind (js_get bind ''index'') (\<lambda>index.
     js_bind (js_get bind ''weight'') (\<lambda>weight.
     js_return (JObj [(''mesh'', mesh), (''index'', index), (''weight'', weight)])))))"

definition convert_blendshape_group :: "mapper \<Rightarrow> jv \<Rightarrow> jv js" where
  "convert_blendshape_group m grp =
     js_bind (js_get grp ''name'') (\<lambda>name.
     js_bind (js_get grp ''presetName'') (\<lambda>presetName.
     js_bind (js_get grp ''binds'') (\<lambda>group_binds.
     js_bind (js_array_map (convert_blendshape_bind m) group_binds) (\<lambda>binds.
     js_bind (js_get grp ''materialValues'') (\<lambda>materialValues.
     js_return (JObj [(''name'', name), (''presetName'', presetName), (''binds'', binds),
                      (''materialValues'', materialValues)]))))))"

definition convert_blendshape :: "mapper \<Rightarrow> jv \<Rightarrow> jv js" where
  "convert_blendshape m blendshape =
     js_bind (js_get blendshape ''blendShapeGroups'') (\<lambda>groups.
     js_bind (js_array_map (convert_blendshape_group m) groups) (\<lambda>blendShapeGroups.
     js_return (JObj [(''blendShapeGroups'', blendShapeGroups)])))"

definition convert_humanoid_bone :: "mapper \<Rightarrow> jv \<Rightarrow> jv js" where
  "convert_humanoid_bone m bone =
     js_bind (js_get bone ''bone'') (\<lambda>bone_name.
     js_bind (js_get bone ''node'') (\<lambda>node_ref.
     js_bind (map_node m node_ref) (\<lambda>node.
     js_bind (js_get bone ''useDefaultValues'') (\<lambda>useDefaultValues.
     js_bind (js_get bone ''min'') (\<lambda>bone_min.
     js_bind (js_get bone ''max'') (\<lambda>bone_max.
     js_bind (js_get bone ''center'') (\<lambda>center.
     js_bind (js_get bone ''axisLength'') (\<lambda>axisLength.
     js_return (JObj [(''bone'', bone_name), (''node'', node),
                      (''useDefaultValues'', useDefaultValues), (''min'', bone_min),
                      (''max'', bone_max), (''center'', center),
                      (''axisLength'', axisLength)])))))))))"

definition convert_humanoid :: "mapper \<Rightarrow> jv \<Rightarrow> jv js" where
  "convert_humanoid m humanoid =
     js_bind (js_get humanoid ''humanBones'') (\<lambda>bones.
     js_bind (js_array_map (convert_humanoid_bone m) bones) (\<lambda>humanBones.
     js_bind (js_get humanoid ''armStretch'') (\<lambda>armStretch.
     js_bind (js_get humanoid ''legStretch'') (\<lambda>legStretch.
     js_bind (js_get humanoid ''upperArmTwist'') (\<lambda>upperArmTwist.
     js_bind (js_get humanoid ''lowerArmTwist'') (\<lambda>lowerArmTwist.
     js_bind (js_get humanoid ''upperLegTwist'') (\<lambda>upperLegTwist.
     js_bind (js_get humanoid ''lowerLegTwist'') (\<lambda>lowerLegTwist.
     js_bind (js_get humanoid ''feetSpacing'') (\<lambda>feetSpacing.
     js_bind (js_get humanoid ''hasTranslationDoF'') (\<lambda>hasTranslationDoF.
     js_return (JObj [(''humanBones'', humanBones), (''armStretch'', armStretch),
                      (''legStretch'', legStretch), (''upperArmTwist'', upperArmTwist),
                      (''lowerArmTwist'', lowerArmTwist), (''upperLegTwist'', upperLegTwist),
                      (''lowerLegTwist'', lowerLegTwist), (''feetSpacing'', feetSpacing),
                      (''hasTranslationDoF'', hasTranslationDoF)])))))))))))"

definition convert_firstperson_meshannotation :: "mapper \<Rightarrow> jv \<Rightarrow> jv js" where
  "convert_firstperson_meshannotation m annot =
     js_bind (js_get annot ''mesh'') (\<lambda>mesh_ref.
     js_bind (map_mesh m mesh_ref) (\<lambda>mesh.
     js_bind (js_get annot ''firstPersonFlag'') (\<lambda>firstPersonFlag.
     js_return (JObj [(''mesh'', mesh), (''firstPersonFlag'', firstPersonFlag)]))))"

definition convert_firstperson :: "mapper \<Rightarrow> jv \<Rightarrow> jv js" where
  "convert_firstperson m firstperson =
     js_bind (js_get firstperson ''firstPersonBone'') (\<lambda>node_ref.
     js_bind (map_node m node_ref) (\<lambda>firstPersonBone.
     js_bind (js_get firstperson ''firstPersonBoneOffset'') (\<lambda>firstPersonBoneOffset.
     js_bind (js_get firstperson ''meshAnnotations'') (\<lambda>annots.
     js_bind (js_array_map (convert_firstperson_meshannotation m) annots) (\<lambda>meshAnnotations.
     js_bind (js_get firstperson ''lookAtTypeName'') (\<lambda>lookAtTypeName.
     js_bind (js_get firstperson ''lookAtHorizontalInner'') (\<lambda>lookAtHorizontalInner.
     js_bind (js_get firstperson ''lookAtVerticalDown'') (\<lambda>lookAtVerticalDown.
     js_bind (js_get firstperson ''lookAtVerticalUp'') (\<lambda>lookAtVerticalUp.
     js_return (JObj [(''firstPersonBone'', firstPersonBone),
                      (''firstPersonBoneOffset'', firstPersonBoneOffset),
                      (''meshAnnotations'', meshAnnotations),
                      (''lookAtTypeName'', lookAtTypeName),
                      (''lookAtHorizontalInner'', lookAtHorizontalInner),
                      (''lookAtVerticalDown'', lookAtVerticalDown),
                      (''lookAtVerticalUp'', lookAtVerticalUp)]))))))))))"

text \<open>The loop of \<^verbatim>\<open>_convert_material\<close> over the texture properties, filling \<open>texProp\<close>.\<close>

fun convert_texture_properties ::
  "mapper \<Rightarrow> (string \<times> jv) list \<Rightarrow> (string \<times> jv) list \<times> texProp_prototype
   \<Rightarrow> ((string \<times> jv) list \<times> texProp_prototype) js" where
  "convert_texture_properties m [] texProp = js_return texProp"
| "convert_texture_properties m ((texName, tex_ref) # rest) texProp =
     js_bind (map_texture m tex_ref) (\<lambda>tex.
     js_bind (map_object_set texProp texName tex) (\<lambda>texProp'.
     convert_texture_properties m rest texProp'))"

definition convert_material :: "mapper \<Rightarrow> jv \<Rightarrow> jv js" where
  "convert_material m mat =
     js_bind (js_get mat ''textureProperties'') (\<lambda>textureProperties.
     js_bind (convert_texture_properties m (for_in textureProperties) ([], MapPrototype))
       (\<lambda>texProp.
     js_bind (js_get mat ''name'') (\<lambda>name.
     js_bind (js_get mat ''shader'') (\<lambda>shader.
     js_bind (js_get mat ''renderQueue'') (\<lambda>renderQueue.
     js_bind (js_get mat ''floatProperties'') (\<lambda>floatProperties.
     js_bind (js_get mat ''vectorProperties'') (\<lambda>vectorProperties.
     js_bind (js_get mat ''keywordMap'') (\<lambda>keywordMap.
     js_bind (js_get mat ''tagMap'') (\<lambda>tagMap.
     js_return (JObj [(''name'', name), (''shader'', shader), (''renderQueue'', renderQueue),
                      (''floatProperties'', floatProperties),
                      (''vectorProperties'', vectorProperties),
                      (''textureProperties'', JObj (fst texProp)),
                      (''keywordMap'', keywordMap), (''tagMap'', tagMap)]))))))))))"

definition convert_vrm :: "mapper \<Rightarrow> jv \<Rightarrow> jv js" where
  "convert_vrm m vrm =
     js_bind (js_get vrm ''blendShapeMaster'') (\<lambda>blendshape.
     js_bind (convert_blendshape m blendshape) (\<lambda>blendShapeMaster.
     js_bind (js_get vrm ''humanoid'') (\<lambda>vrm_humanoid.
     js_bind (convert_humanoid m vrm_humanoid) (\<lambda>humanoid.
     js_bind (js_get vrm ''firstPerson'') (\<lambda>firstperson.
     js_bind (convert_firstperson m firstperson) (\<lambda>firstPerson.
     js_bind (js_get vrm ''materialProperties'') (\<lambda>mats.
     js_bind (js_array_map (convert_material m) mats) (\<lambda>materialProperties.
     js_bind (js_get vrm ''meta'') (\<lambda>meta.
     js_return (JObj [(''blendShapeMaster'', blendShapeMaster), (''humanoid'', humanoid),
                      (''firstPerson'', firstPerson),
                      (''materialProperties'', materialProperties), (''meta'', meta),
                      (''secondaryAnimation'', JObj [])]))))))))))"

section \<open>Export: attaching the extension (serialize_vrm)\<close>

definition js_log :: "string \<Rightarrow> jv list \<Rightarrow> unit js" where
  "js_log text args = (Inr (), [ConsoleLog text args])"

definition js_warn :: "string \<Rightarrow> jv list \<Rightarrow> unit js" where
  "js_warn text args = (Inr (), [ConsoleWarn text args])"

text \<open>\<^verbatim>\<open>obj.nodeMap.get(node_ref)\<close>: the keys of the exporter's map are scene objects.\<close>

fun nodeMap_get :: "(nat \<Rightarrow> nat option) \<Rightarrow> jv \<Rightarrow> nat option" where
  "nodeMap_get node_map (JHost h) = node_map h"
| "nodeMap_get node_map v = None"

text \<open>The three callbacks of \<^verbatim>\<open>ref_to_id\<close> in \<^verbatim>\<open>attach_vrm_extension\<close>.\<close>

definition export_map_node :: "export_obj \<Rightarrow> jv \<Rightarrow> jv js" where
  "export_map_node obj node_ref =
     (case nodeMap_get (nodeMap obj) node_ref of
        None \<Rightarrow>
          js_bind (js_warn ''map_node failed (not found in nodeMap)'' [node_ref]) (\<lambda>_.
          js_return (JNum 0))
      | Some node_id \<Rightarrow> js_return (JNum (real node_id)))"

definition export_map_mesh :: "export_obj \<Rightarrow> jv \<Rightarrow> jv js" where
  "export_map_mesh obj mesh_ref =
     js_bind (js_findIndex
                (\<lambda>e. js_bind (js_first mesh_ref) (\<lambda>mesh_ref_0. js_return (JHost e = mesh_ref_0)))
                (skins obj)) (\<lambda>skin_id.
     if skin_id < 0
     then js_bind (js_warn ''map_node failed (not found in skins)'' [mesh_ref]) (\<lambda>_.
          js_return (JNum 0))
     else js_return (JNum (real_of_int skin_id)))"

definition export_map_texture :: "jv \<Rightarrow> jv js" where
  "export_map_texture tex_ref =
     js_bind (js_log ''map_texture'' [tex_ref]) (\<lambda>_. js_return (JNum 0))"

definition ref_to_id :: "export_obj \<Rightarrow> mapper" where
  "ref_to_id obj = \<lparr>map_node = export_map_node obj, map_mesh = export_map_mesh obj,
                    map_texture = export_map_texture\<rparr>"

text \<open>\<^verbatim>\<open>ext_with_ids["exporterVersion"] = "me/v"\<close> on the object that \<open>convert_vrm\<close> built.\<close>

fun set_member :: "jv \<Rightarrow> string \<Rightarrow> jv \<Rightarrow> jv" where
  "set_member (JObj kvs) k v = JObj (obj_set kvs k v)"
| "set_member w k v = w"

text \<open>
  \<^verbatim>\<open>attach_vrm_extension(obj)\<close>, with \<open>vrm_ext\<close> the argument of \<^verbatim>\<open>serialize_vrm\<close>. It
  changes \<^verbatim>\<open>obj.json\<close> in place and returns \<^verbatim>\<open>obj\<close>; when the conversion throws, the
  promise chain is rejected and the object is not passed on. Of the arguments of its
  console message the JavaScript value \<open>vrm_ext\<close> is kept.
\<close>

definition attach_vrm_extension :: "jv \<Rightarrow> export_obj \<Rightarrow> export_obj js" where
  "attach_vrm_extension vrm_ext obj =
     js_bind (js_log ''Attaching VRM'' [vrm_ext]) (\<lambda>_.
     let json_extensionsUsed = (case extensionsUsed (json obj) of None \<Rightarrow> [] | Some used \<Rightarrow> used);
         json_extensions = (case extensions (json obj) of None \<Rightarrow> [] | Some exts \<Rightarrow> exts)
     in js_bind (js_get vrm_ext ''vrm'') (\<lambda>vrm.
        js_bind (convert_vrm (ref_to_id obj) vrm) (\<lambda>ext_with_ids.
        let ext_with_ids = set_member ext_with_ids ''exporterVersion'' (JStr ''me/v'');
            json_extensions = obj_set json_extensions ''VRM'' ext_with_ids;
            json_extensionsUsed = array_from_set (''VRM'' # json_extensionsUsed)
        in js_return (obj\<lparr>json := (json obj)\<lparr>extensions := Some json_extensions,
                                                extensionsUsed := Some json_extensionsUsed\<rparr>\<rparr>))))"

section \<open>Import (parse_vrm)\<close>

text \<open>
  What the loader hands over: the objects its \<^verbatim>\<open>getDependency\<close> resolves for every
  node, mesh and texture index of the document (the arrays \<^verbatim>\<open>nodes\<close>, \<^verbatim>\<open>meshes\<close> and
  \<^verbatim>\<open>textures\<close> that \<^verbatim>\<open>Promise.all\<close> delivers), each \<open>None\<close> when the document has
  no member of that name; the document's \<^verbatim>\<open>extensions\<close> member; and the scene.
\<close>

record loaded_gltf =
  dep_nodes :: "jv list option"
  dep_meshes :: "jv list option"
  dep_textures :: "jv list option"
  parser_json_extensions :: "(string \<times> jv) list option"
  scene :: jv

definition ref_to_real :: "(string \<Rightarrow> jv) \<Rightarrow> jv list \<Rightarrow> jv list \<Rightarrow> jv list \<Rightarrow> mapper" where
  "ref_to_real array_members nodes meshes textures =
     \<lparr>map_node = (\<lambda>id. array_at array_members nodes id),
      map_mesh = (\<lambda>id. array_at array_members meshes id),
      map_texture = (\<lambda>id. array_at array_members textures id)\<rparr>"

text \<open>
  \<^verbatim>\<open>parse_vrm(gltf)\<close>. Reading \<^verbatim>\<open>.length\<close> of a missing \<^verbatim>\<open>nodes\<close> or \<^verbatim>\<open>meshes\<close>
  member throws a TypeError; missing \<^verbatim>\<open>textures\<close> count as none. The converted
  extension is written to the console; the function returns the scene.
\<close>

definition parse_vrm :: "(string \<Rightarrow> jv) \<Rightarrow> loaded_gltf \<Rightarrow> jv list js" where
  "parse_vrm array_members gltf =
     js_bind (js_log ''Parsing glTF as VRM'' []) (\<lambda>_.
     js_bind (case dep_nodes gltf of None \<Rightarrow> js_throw TypeError
              | Some resolved \<Rightarrow> js_return resolved) (\<lambda>nodes.
     js_bind (case dep_meshes gltf of None \<Rightarrow> js_throw TypeError
              | Some resolved \<Rightarrow> js_return resolved) (\<lambda>meshes.
     let textures = (case dep_textures gltf of None \<Rightarrow> [] | Some resolved \<Rightarrow> resolved)
     in js_bind (case parser_json_extensions gltf of
                   None \<Rightarrow> js_throw TypeError
                 | Some exts \<Rightarrow> js_return (prop_of (JObj exts) ''VRM'')) (\<lambda>wire.
        js_bind (convert_vrm (ref_to_real array_members nodes meshes textures) wire) (\<lambda>vrm.
        js_bind (js_log [] [vrm]) (\<lambda>_.
        js_return [scene gltf]))))))"

section \<open>Preset names known to the editor\<close>

definition EMOTION_PRESET_GROUPING :: "string list list" where
  "EMOTION_PRESET_GROUPING =
     [[''neutral''],
      [''a'', ''i'', ''u'', ''e'', ''o''],
      [''joy'', ''angry'', ''sorrow'', ''fun''],
      [''blink'', ''blink_l'', ''blink_r''],
      [''lookleft'', ''lookright'', ''lookup'', ''lookdown'']]"

text \<open>\<^verbatim>\<open>const knownNames = new Set(flatten(EMOTION_PRESET_GROUPING))\<close>\<close>

definition knownNames :: "string set" where
  "knownNames = set (concat EMOTION_PRESET_GROUPING)"

section \<open>Notions used in the statements\<close>

text \<open>An evaluation returns when it does not throw.\<close>

definition returns :: "'a js \<Rightarrow> bool" where
  "returns m = (case fst m of Inl e \<Rightarrow> False | Inr x \<Rightarrow> True)"

text \<open>A mapper whose callbacks never throw on a reference that is there.\<close>

definition lenient :: "mapper \<Rightarrow> bool" where
  "lenient m =
     ((\<forall>r. returns (map_node m r)) \<and> (\<forall>r. \<not> nullish r \<longrightarrow> returns (map_mesh m r))
      \<and> (\<forall>r. returns (map_texture m r)))"

text \<open>The elements of an array value.\<close>

fun elements :: "jv \<Rightarrow> jv list" where
  "elements (JArr xs) = xs"
| "elements v = []"

fun is_array :: "jv \<Rightarrow> bool" where
  "is_array (JArr xs) = True"
| "is_array v = False"

text \<open>
  The shape the walker needs of a document to run through: the objects and arrays it
  descends into are there, every bind and mesh annotation has a mesh member, and no
  texture property is called \<open>size\<close>. Nothing is asked of where a reference points.
\<close>

definition has_mesh :: "jv \<Rightarrow> bool" where
  "has_mesh v = (\<not> nullish v \<and> \<not> nullish (prop_of v ''mesh''))"

definition group_shaped :: "jv \<Rightarrow> bool" where
  "group_shaped grp =
     (\<not> nullish grp \<and> is_array (prop_of grp ''binds'')
      \<and> list_all has_mesh (elements (prop_of grp ''binds'')))"

definition material_shaped :: "jv \<Rightarrow> bool" where
  "material_shaped mat =
     (\<not> nullish mat \<and> ''size'' \<notin> fst ` set (for_in (prop_of mat ''textureProperties'')))"

definition vrm_shaped :: "jv \<Rightarrow> bool" where
  "vrm_shaped vrm =
     (\<not> nullish vrm
      \<and> \<not> nullish (prop_of vrm ''blendShapeMaster'')
      \<and> is_array (prop_of (prop_of vrm ''blendShapeMaster'') ''blendShapeGroups'')
      \<and> list_all group_shaped
            (elements (prop_of (prop_of vrm ''blendShapeMaster'') ''blendShapeGroups''))
      \<and> \<not> nullish (prop_of vrm ''humanoid'')
      \<and> is_array (prop_of (prop_of vrm ''humanoid'') ''humanBones'')
      \<and> list_all (\<lambda>bone. \<not> nullish bone) (elements (prop_of (prop_of vrm ''humanoid'') ''humanBones''))
      \<and> \<not> nullish (prop_of vrm ''firstPerson'')
      \<and> is_array (prop_of (prop_of vrm ''firstPerson'') ''meshAnnotations'')
      \<and> list_all has_mesh (elements (prop_of (prop_of vrm ''firstPerson'') ''meshAnnotations''))
      \<and> is_array (prop_of vrm ''materialProperties'')
      \<and> list_all material_shaped (elements (prop_of vrm ''materialProperties'')))"

text \<open>The first index whose element satisfies a predicate, or \<open>-1\<close>.\<close>

fun findIndex_from :: "int \<Rightarrow> ('a \<Rightarrow> bool) \<Rightarrow> 'a list \<Rightarrow> int" where
  "findIndex_from i p [] = -1"
| "findIndex_from i p (x # xs) = (if p x then i else findIndex_from (i + 1) p xs)"

definition findIndex :: "('a \<Rightarrow> bool) \<Rightarrow> 'a list \<Rightarrow> int" where
  "findIndex p xs = findIndex_from 0 p xs"

text \<open>
  The lookup in the words of claim C7, for comparison with \<open>export_map_mesh\<close>: the index
  of the first skin whose first element is the given reference, \<open>-1\<close> when there is none.
\<close>

definition skin_with_first_element :: "nat list \<Rightarrow> jv \<Rightarrow> int" where
  "skin_with_first_element skin_list mesh_ref =
     findIndex (\<lambda>e. fst (js_first (JHost e)) = Inr mesh_ref) skin_list"

text \<open>A mesh reference resolves when its first element is one of the exporter's skins.\<close>

definition resolves_mesh :: "export_obj \<Rightarrow> jv \<Rightarrow> bool" where
  "resolves_mesh obj mesh_ref = (\<exists>e \<in> set (skins obj). js_first mesh_ref = js_return (JHost e))"

text \<open>Export followed by import, with nothing in between.\<close>

definition roundtrip ::
  "export_obj \<Rightarrow> (string \<Rightarrow> jv) \<Rightarrow> jv list \<Rightarrow> jv list \<Rightarrow> jv list \<Rightarrow> jv \<Rightarrow> jv js" where
  "roundtrip obj array_members nodes meshes textures vrm =
     js_bind (convert_vrm (ref_to_id obj) vrm)
       (convert_vrm (ref_to_real array_members nodes meshes textures))"

section \<open>Example documents\<close>

text \<open>
  An export context with two nodes and three skins, the matching import context, and a
  document whose references all resolve in it.
\<close>

definition avatar_json :: gltf_json where
  "avatar_json = \<lparr>json_buffers = Some [[(''byteLength'', JNum 0)]],
                   extensionsUsed = Some [''KHR_materials_unlit'', ''VRM''],
                   extensions = None, json_rest = []\<rparr>"

definition avatar_obj :: export_obj where
  "avatar_obj = \<lparr>json = avatar_json, buffers = [], nodeMap = map_of [(10, 0), (11, 1)],
                  skins = [20, 21, 22]\<rparr>"

definition avatar_nodes :: "jv list" where
  "avatar_nodes = [JHost 10, JHost 11]"

definition avatar_meshes :: "jv list" where
  "avatar_meshes = [JArr [JHost 20], JArr [JHost 21], JArr [JHost 22]]"

definition avatar_blendShapeMaster :: jv where
  "avatar_blendShapeMaster =
     JObj [(''blendShapeGroups'', JArr [
       JObj [(''name'', JStr ''Smile''), (''presetName'', JStr ''joy''),
             (''binds'', JArr [JObj [(''mesh'', JArr [JHost 22]), (''index'', JNum 5),
                                     (''weight'', JNum 1)]]),
             (''materialValues'', JArr [])]])]"

definition avatar_humanoid :: jv where
  "avatar_humanoid =
     JObj [(''humanBones'', JArr [
       JObj [(''bone'', JStr ''hips''), (''node'', JHost 10), (''useDefaultValues'', JBool True),
             (''min'', JUndefined), (''max'', JUndefined), (''center'', JUndefined),
             (''axisLength'', JNum 0)]]),
       (''armStretch'', JNum 0.05), (''legStretch'', JNum 0.05),
       (''upperArmTwist'', JNum 0.5), (''lowerArmTwist'', JNum 0.5),
       (''upperLegTwist'', JNum 0.5), (''lowerLegTwist'', JNum 0.5),
       (''feetSpacing'', JNum 0), (''hasTranslationDoF'', JBool False)]"

definition avatar_firstPerson :: jv where
  "avatar_firstPerson =
     JObj [(''firstPersonBone'', JHost 11),
           (''firstPersonBoneOffset'', JObj [(''x'', JNum 0), (''y'', JNum 0.06), (''z'', JNum 0)]),
           (''meshAnnotations'', JArr [
              JObj [(''mesh'', JArr [JHost 20]), (''firstPersonFlag'', JStr ''Auto'')]]),
           (''lookAtTypeName'', JStr ''Bone''),
           (''lookAtHorizontalInner'', JNum 90),
           (''lookAtHorizontalOuter'', JNum 80),
           (''lookAtVerticalDown'', JNum 70),
           (''lookAtVerticalUp'', JNum 60)]"

definition avatar_vrm :: jv where
  "avatar_vrm =
     JObj [(''blendShapeMaster'', avatar_blendShapeMaster),
           (''humanoid'', avatar_humanoid),
           (''firstPerson'', avatar_firstPerson),
           (''materialProperties'', JArr []),
           (''meta'', JObj [(''title'', JStr ''Avatar'')]),
           (''secondaryAnimation'', JObj [(''boneGroups'', JArr [JObj [(''stiffiness'', JNum 1)]]),
                                           (''colliderGroups'', JArr [])])]"

text \<open>The wire form of \<open>avatar_vrm\<close> in this export context.\<close>

definition avatar_wire :: jv where
  "avatar_wire =
     JObj [(''blendShapeMaster'',
            JObj [(''blendShapeGroups'', JArr [
              JObj [(''name'', JStr ''Smile''), (''presetName'', JStr ''joy''),
                    (''binds'', JArr [JObj [(''mesh'', JNum 2), (''index'', JNum 5),
                                            (''weight'', JNum 1)]]),
                    (''materialValues'', JArr [])]])]),
           (''humanoid'',
            JObj [(''humanBones'', JArr [
              JObj [(''bone'', JStr ''hips''), (''node'', JNum 0), (''useDefaultValues'', JBool True),
                    (''min'', JUndefined), (''max'', JUndefined), (''center'', JUndefined),
                    (''axisLength'', JNum 0)]]),
              (''armStretch'', JNum 0.05), (''legStretch'', JNum 0.05),
              (''upperArmTwist'', JNum 0.5), (''lowerArmTwist'', JNum 0.5),
              (''upperLegTwist'', JNum 0.5), (''lowerLegTwist'', JNum 0.5),
              (''feetSpacing'', JNum 0), (''hasTranslationDoF'', JBool False)]),
           (''firstPerson'',
            JObj [(''firstPersonBone'', JNum 1),
              (''firstPersonBoneOffset'', JObj [(''x'', JNum 0), (''y'', JNum 0.06), (''z'', JNum 0)]),
              (''meshAnnotations'', JArr [
                 JObj [(''mesh'', JNum 0), (''firstPersonFlag'', JStr ''Auto'')]]),
              (''lookAtTypeName'', JStr ''Bone''),
              (''lookAtHorizontalInner'', JNum 90),
              (''lookAtVerticalDown'', JNum 70),
              (''lookAtVerticalUp'', JNum 60)]),
           (''materialProperties'', JArr []),
           (''meta'', JObj [(''title'', JStr ''Avatar'')]),
           (''secondaryAnimation'', JObj [])]"

definition avatar_ext :: jv where
  "avatar_ext = JObj [(''vrm'', avatar_vrm)]"

text \<open>
  A document as an authoring tool may leave it: a preset name outside the editor's list,
  two groups called \<open>unknown\<close>, and a bind whose mesh is not among the skins.
\<close>

definition dangling_bind :: jv where
  "dangling_bind = JObj [(''mesh'', JArr [JHost 99]), (''index'', JNum 3), (''weight'', JNum 100)]"

definition surprised_group :: jv where
  "surprised_group =
     JObj [(''name'', JStr ''Surprised''), (''presetName'', JStr ''surprised''),
           (''binds'', JArr [dangling_bind]), (''materialValues'', JArr [])]"

definition thirdparty_blendShapeMaster :: jv where
  "thirdparty_blendShapeMaster =
     JObj [(''blendShapeGroups'', JArr [
       surprised_group,
       JObj [(''name'', JStr ''Extra1''), (''presetName'', JStr ''unknown''),
             (''binds'', JArr []), (''materialValues'', JArr [])],
       JObj [(''name'', JStr ''Extra2''), (''presetName'', JStr ''unknown''),
             (''binds'', JArr []), (''materialValues'', JArr [])]])]"

definition thirdparty_vrm :: jv where
  "thirdparty_vrm =
     JObj [(''blendShapeMaster'', thirdparty_blendShapeMaster),
           (''humanoid'', JObj [(''humanBones'', JArr [])]),
           (''firstPerson'', JObj [(''firstPersonBone'', JHost 11), (''meshAnnotations'', JArr [])]),
           (''materialProperties'', JArr [JObj [(''name'', JStr ''Face''),
               (''textureProperties'', JObj [(''_MainTex'', JHost 30)])]]),
           (''meta'', JObj [])]"

text \<open>The wire form of \<open>thirdparty_vrm\<close> in the export context of the avatar.\<close>

definition thirdparty_wire :: jv where
  "thirdparty_wire =
     JObj [(''blendShapeMaster'',
            JObj [(''blendShapeGroups'', JArr [
              JObj [(''name'', JStr ''Surprised''), (''presetName'', JStr ''surprised''),
                    (''binds'', JArr [JObj [(''mesh'', JNum 0), (''index'', JNum 3),
                                            (''weight'', JNum 100)]]),
                    (''materialValues'', JArr [])],
              JObj [(''name'', JStr ''Extra1''), (''presetName'', JStr ''unknown''),
                    (''binds'', JArr []), (''materialValues'', JArr [])],
              JObj [(''name'', JStr ''Extra2''), (''presetName'', JStr ''unknown''),
                    (''binds'', JArr []), (''materialValues'', JArr [])]])]),
           (''humanoid'',
            JObj [(''humanBones'', JArr []), (''armStretch'', JUndefined),
              (''legStretch'', JUndefined), (''upperArmTwist'', JUndefined),
              (''lowerArmTwist'', JUndefined), (''upperLegTwist'', JUndefined),
              (''lowerLegTwist'', JUndefined), (''feetSpacing'', JUndefined),
              (''hasTranslationDoF'', JUndefined)]),
           (''firstPerson'',
            JObj [(''firstPersonBone'', JNum 1), (''firstPersonBoneOffset'', JUndefined),
              (''meshAnnotations'', JArr []), (''lookAtTypeName'', JUndefined),
              (''lookAtHorizontalInner'', JUndefined), (''lookAtVerticalDown'', JUndefined),
              (''lookAtVerticalUp'', JUndefined)]),
           (''materialProperties'', JArr [
             JObj [(''name'', JStr ''Face''), (''shader'', JUndefined), (''renderQueue'', JUndefined),
                   (''floatProperties'', JUndefined), (''vectorProperties'', JUndefined),
                   (''textureProperties'', JObj [(''_MainTex'', JNum 0)]),
                   (''keywordMap'', JUndefined), (''tagMap'', JUndefined)]]),
           (''meta'', JObj []),
           (''secondaryAnimation'', JObj [])]"

text \<open>
  The same document with the mesh member of its bind left out, and a bone without a node
  member.
\<close>

definition meshless_bind :: jv where
  "meshless_bind = JObj [(''index'', JNum 3), (''weight'', JNum 100)]"

definition meshless_vrm :: jv where
  "meshless_vrm =
     JObj [(''blendShapeMaster'',
            JObj [(''blendShapeGroups'', JArr [
              JObj [(''name'', JStr ''Surprised''), (''presetName'', JStr ''surprised''),
                    (''binds'', JArr [meshless_bind]), (''materialValues'', JArr [])]])]),
           (''humanoid'', JObj [(''humanBones'', JArr [])]),
           (''firstPerson'', JObj [(''firstPersonBone'', JHost 11), (''meshAnnotations'', JArr [])]),
           (''materialProperties'', JArr []),
           (''meta'', JObj [])]"

definition nodeless_bone :: jv where
  "nodeless_bone = JObj [(''bone'', JStr ''hips''), (''useDefaultValues'', JBool True)]"

text \<open>Two of the members that the host's arrays inherit, as host objects.\<close>

definition sample_array_members :: "string \<Rightarrow> jv" where
  "sample_array_members member =
     (if member = ''constructor'' then JHost 900
      else if member = ''map'' then JHost 901
      else JUndefined)"

text \<open>
  A wire document that carries spring-bone data. One of its node references is written
  as a string, and its material has texture properties called \<open>__proto__\<close> and \<open>size\<close>.
\<close>

definition springy_wire :: jv where
  "springy_wire =
     JObj [(''blendShapeMaster'', JObj [(''blendShapeGroups'', JArr [])]),
           (''humanoid'', JObj [(''humanBones'', JArr [JObj [(''bone'', JStr ''hips''),
                                                             (''node'', JStr ''1'')]])]),
           (''firstPerson'', JObj [(''firstPersonBone'', JNum 0), (''meshAnnotations'', JArr [])]),
           (''materialProperties'', JArr [
              JObj [(''name'', JStr ''Face''),
                    (''textureProperties'', JObj [(''__proto__'', JNum 0), (''size'', JNum 0)])]]),
           (''meta'', JObj []),
           (''secondaryAnimation'', JObj [(''boneGroups'', JArr [JObj [(''stiffiness'', JNum 1)]]),
                                           (''colliderGroups'', JArr [])])]"

text \<open>The extension that the import makes of it, for the example arrays.\<close>

definition springy_vrm :: jv where
  "springy_vrm =
     JObj [(''blendShapeMaster'', JObj [(''blendShapeGroups'', JArr [])]),
           (''humanoid'',
            JObj [(''humanBones'', JArr [
              JObj [(''bone'', JStr ''hips''), (''node'', JHost 11),
                    (''useDefaultValues'', JUndefined), (''min'', JUndefined),
                    (''max'', JUndefined), (''center'', JUndefined),
                    (''axisLength'', JUndefined)]]),
              (''armStretch'', JUndefined), (''legStretch'', JUndefined),
              (''upperArmTwist'', JUndefined), (''lowerArmTwist'', JUndefined),
              (''upperLegTwist'', JUndefined), (''lowerLegTwist'', JUndefined),
              (''feetSpacing'', JUndefined), (''hasTranslationDoF'', JUndefined)]),
           (''firstPerson'',
            JObj [(''firstPersonBone'', JHost 10), (''firstPersonBoneOffset'', JUndefined),
              (''meshAnnotations'', JArr []), (''lookAtTypeName'', JUndefined),
              (''lookAtHorizontalInner'', JUndefined), (''lookAtVerticalDown'', JUndefined),
              (''lookAtVerticalUp'', JUndefined)]),
           (''materialProperties'', JArr [
              JObj [(''name'', JStr ''Face''), (''shader'', JUndefined),
                    (''renderQueue'', JUndefined), (''floatProperties'', JUndefined),
                    (''vectorProperties'', JUndefined),
                    (''textureProperties'', JObj [(''size'', JHost 30)]),
                    (''keywordMap'', JUndefined), (''tagMap'', JUndefined)]]),
           (''meta'', JObj []),
           (''secondaryAnimation'', JObj [])]"

definition springy_gltf :: loaded_gltf where
  "springy_gltf = \<lparr>dep_nodes = Some avatar_nodes, dep_meshes = Some avatar_meshes,
                    dep_textures = Some [JHost 30],
                    parser_json_extensions = Some [(''VRM'', springy_wire)], scene = JHost 1\<rparr>"

text \<open>A mesh annotation, a bone and a first-person object with a reference that is not known.\<close>

definition dangling_annotation :: jv where
  "dangling_annotation = JObj [(''mesh'', JArr [JHost 99]), (''firstPersonFlag'', JStr ''Auto'')]"

definition dangling_bone :: jv where
  "dangling_bone = JObj [(''bone'', JStr ''hips''), (''node'', JHost 77),
                         (''useDefaultValues'', JBool True)]"

definition dangling_firstPerson :: jv where
  "dangling_firstPerson = JObj [(''firstPersonBone'', JHost 77), (''meshAnnotations'', JArr []),
                                (''lookAtTypeName'', JStr ''Bone'')]"

section \<open>Properties of the container writer\<close>

lemma getPaddedBufferSize_div: "getPaddedBufferSize n = (n + 3) div 4 * 4"
proof -
  define q where "q = (n + 3) div 4"
  have lo: "n \<le> 4 * q" and hi: "4 * q < n + 4"
    unfolding q_def by presburger+
  have "\<lceil>real n / 4\<rceil> = int q"
  proof (rule ceiling_unique)
    from hi have "real (4 * q) < real (n + 4)"
      by (simp only: of_nat_less_iff)
    then show "real_of_int (int q) - 1 < real n / 4"
      by simp
    from lo have "real n \<le> real (4 * q)"
      by (simp only: of_nat_le_iff)
    then show "real n / 4 \<le> real_of_int (int q)"
      by simp
  qed
  then show ?thesis by (simp add: getPaddedBufferSize_def q_def)
qed

lemma getPaddedBufferSize_ge: "n \<le> getPaddedBufferSize n"
  unfolding getPaddedBufferSize_div by presburger

lemma getPaddedBufferSize_dvd: "4 dvd getPaddedBufferSize n"
  unfolding getPaddedBufferSize_div by simp

lemma getPaddedBufferSize_lt: "getPaddedBufferSize n < n + 4"
  unfolding getPaddedBufferSize_div by presburger

lemma getPaddedBufferSize_least: "4 dvd m \<Longrightarrow> n \<le> m \<Longrightarrow> getPaddedBufferSize n \<le> m"
  unfolding getPaddedBufferSize_div by presburger

lemma getPaddedBufferSize_fixed: "4 dvd n \<Longrightarrow> getPaddedBufferSize n = n"
  unfolding getPaddedBufferSize_div by presburger

lemma fill_padding_eq:
  "i \<le> n \<Longrightarrow> n \<le> length array \<Longrightarrow>
   fill_padding i n b array = take i array @ replicate (n - i) b @ drop n array"
proof (induction i n b array rule: fill_padding.induct)
  case (1 i n b array)
  show ?case
  proof (cases "i < n")
    case True
    then have "fill_padding i n b array = fill_padding (i + 1) n b (array[i := b])"
      by (subst fill_padding.simps) simp
    also have "\<dots> = take (i + 1) (array[i := b]) @ replicate (n - (i + 1)) b @ drop n (array[i := b])"
      using True 1 by simp
    also have "take (i + 1) (array[i := b]) = take i array @ [b]"
      using True 1(3) by (simp add: take_Suc_conv_app_nth)
    also have "drop n (array[i := b]) = drop n array"
      using True by simp
    also have "(take i array @ [b]) @ replicate (n - (i + 1)) b @ drop n array
               = take i array @ replicate (n - i) b @ drop n array"
      using True by (simp add: replicate_Suc [symmetric] Suc_diff_Suc del: replicate_Suc)
    finally show ?thesis .
  next
    case False
    with 1(2) have "i = n" by simp
    then show ?thesis by (subst fill_padding.simps) simp
  qed
qed

lemma getPaddedArrayBuffer_eq:
  "getPaddedArrayBuffer arrayBuffer paddingByte =
     arrayBuffer @ replicate (getPaddedBufferSize (length arrayBuffer) - length arrayBuffer)
       (of_nat (case paddingByte of None \<Rightarrow> 0 | Some b \<Rightarrow> b))"
proof -
  let ?n = "length arrayBuffer"
  let ?p = "getPaddedBufferSize ?n"
  let ?b = "case paddingByte of None \<Rightarrow> 0 | Some b \<Rightarrow> b"
  have ge: "?n \<le> ?p" by (rule getPaddedBufferSize_ge)
  have arr: "typed_array_set (replicate ?p 0) arrayBuffer = arrayBuffer @ replicate (?p - ?n) 0"
    by (simp add: typed_array_set_def)
  show ?thesis
  proof (cases "?p = ?n")
    case True
    then show ?thesis by (simp add: getPaddedArrayBuffer_def)
  next
    case False
    show ?thesis
    proof (cases "?b = 0")
      case True
      with False show ?thesis by (simp add: getPaddedArrayBuffer_def Let_def arr)
    next
      case nz: False
      have "fill_padding ?n ?p (of_nat ?b) (arrayBuffer @ replicate (?p - ?n) 0)
            = arrayBuffer @ replicate (?p - ?n) (of_nat ?b)"
        using ge by (subst fill_padding_eq) simp_all
      with False nz show ?thesis by (simp add: getPaddedArrayBuffer_def Let_def arr)
    qed
  qed
qed

lemma length_uint32_le [simp]: "length (uint32_le v) = 4"
  by (simp add: uint32_le_def Let_def)

lemma setUint32_at:
  "length pre = off \<Longrightarrow> length old = 4 \<Longrightarrow>
   setUint32 (pre @ old @ post) off v = pre @ uint32_le v @ post"
proof -
  assume p: "length pre = off" and o: "length old = 4"
  from o obtain a b c d where old: "old = [a, b, c, d]"
    by (cases old; cases "tl old"; cases "tl (tl old)"; cases "tl (tl (tl old))"; cases "tl (tl (tl (tl old)))") auto
  show ?thesis
    using p by (simp add: setUint32_def uint32_le_def Let_def old list_update_append)
qed

lemma prefix_eq:
  "setUint32 (setUint32 (replicate GLB_CHUNK_PREFIX_BYTES 0) 0 a) 4 b = uint32_le a @ uint32_le b"
proof -
  have r: "replicate GLB_CHUNK_PREFIX_BYTES (0::byte) = [] @ replicate 4 0 @ replicate 4 0"
    by (simp add: GLB_CHUNK_PREFIX_BYTES_def replicate_add [symmetric])
  have 1: "setUint32 (replicate GLB_CHUNK_PREFIX_BYTES 0) 0 a = uint32_le a @ replicate 4 0"
    unfolding r by (subst setUint32_at) simp_all
  have 2: "setUint32 (uint32_le a @ replicate 4 0 @ []) 4 b = uint32_le a @ uint32_le b @ []"
    by (rule setUint32_at) simp_all
  show ?thesis using 1 2 by simp
qed

lemma header_eq:
  "setUint32 (setUint32 (setUint32 (replicate GLB_HEADER_BYTES 0) 0 a) 4 b) 8 c
   = uint32_le a @ uint32_le b @ uint32_le c"
proof -
  have r: "replicate GLB_HEADER_BYTES (0::byte) = [] @ replicate 4 0 @ (replicate 4 0 @ replicate 4 0)"
    by (simp add: GLB_HEADER_BYTES_def replicate_add [symmetric])
  have 1: "setUint32 (replicate GLB_HEADER_BYTES 0) 0 a = uint32_le a @ replicate 4 0 @ replicate 4 0"
    unfolding r by (subst setUint32_at) simp_all
  have 2: "setUint32 (uint32_le a @ replicate 4 0 @ replicate 4 0) 4 b
           = uint32_le a @ uint32_le b @ replicate 4 0"
    by (rule setUint32_at) simp_all
  have 3: "setUint32 ((uint32_le a @ uint32_le b) @ replicate 4 0 @ []) 8 c
           = (uint32_le a @ uint32_le b) @ uint32_le c @ []"
    by (rule setUint32_at) simp_all
  show ?thesis using 1 2 3 by simp
qed

lemma byte_split: "(x::nat) mod 256 + 256 * (x div 256) = x"
  by simp

lemma le_uint32_uint32_le: "le_uint32 (uint32_le v) = v mod 2 ^ 32"
proof -
  define w where "w = v mod 2 ^ 32"
  define w1 where "w1 = w div 256"
  define w2 where "w2 = w1 div 256"
  define w3 where "w3 = w2 div 256"
  have "w < 256 * (256 * (256 * 256))" by (simp add: w_def)
  then have "w3 < 256"
    unfolding w3_def w2_def w1_def by (simp add: less_mult_imp_div_less mult.commute)
  then have e3: "w3 mod 256 = w3" by simp
  have d1: "w div 2 ^ 8 = w1" by (simp add: w1_def)
  have d2: "w div 2 ^ 16 = w2"
    unfolding w2_def w1_def by (simp add: div_mult2_eq [symmetric])
  have d3: "w div 2 ^ 24 = w3"
    unfolding w3_def w2_def w1_def by (simp add: div_mult2_eq [symmetric])
  have u: "\<And>x. unat (of_nat x :: byte) = x mod 256"
    by (simp add: unat_of_nat)
  have "le_uint32 (uint32_le v)
        = unat (of_nat w :: byte) + 2 ^ 8 * unat (of_nat (w div 2 ^ 8) :: byte)
          + 2 ^ 16 * unat (of_nat (w div 2 ^ 16) :: byte)
          + 2 ^ 24 * unat (of_nat (w div 2 ^ 24) :: byte)"
    unfolding le_uint32_def uint32_le_def Let_def w_def by simp
  also have "\<dots> = w mod 256 + 256 * (w1 mod 256 + 256 * (w2 mod 256 + 256 * w3))"
    unfolding d1 d2 d3 u e3 by simp
  also have "\<dots> = w"
    using byte_split [of w] byte_split [of w1] byte_split [of w2]
    unfolding w1_def [symmetric] w2_def [symmetric] w3_def [symmetric] by simp
  finally show ?thesis by (simp add: w_def)
qed

lemma length_getPaddedArrayBuffer:
  "length (getPaddedArrayBuffer xs p) = getPaddedBufferSize (length xs)"
  by (simp add: getPaddedArrayBuffer_eq getPaddedBufferSize_ge)

lemma serialize_glb_Inr:
  assumes "serialize_glb stringify obj = Inr (obj', out)"
  obtains buffer0 rest where
    "json_buffers (json obj) = Some (buffer0 # rest)"
    "obj' = obj\<lparr>json := (json obj)\<lparr>json_buffers :=
        Some (obj_set buffer0 ''byteLength'' (JNum (real (length (concat (buffers obj))))) # rest)\<rparr>\<rparr>"
    "out = uint32_le GLB_HEADER_MAGIC @ uint32_le GLB_VERSION
         @ uint32_le (GLB_HEADER_BYTES + 8
              + length (getPaddedArrayBuffer (stringify (json obj')) (Some 0x20)) + 8
              + length (getPaddedArrayBuffer (concat (buffers obj)) None))
         @ (uint32_le (length (getPaddedArrayBuffer (stringify (json obj')) (Some 0x20)))
            @ uint32_le GLB_CHUNK_TYPE_JSON)
         @ getPaddedArrayBuffer (stringify (json obj')) (Some 0x20)
         @ (uint32_le (length (getPaddedArrayBuffer (concat (buffers obj)) None))
            @ uint32_le GLB_CHUNK_TYPE_BIN)
         @ getPaddedArrayBuffer (concat (buffers obj)) None"
proof -
  from assms obtain buffer0 rest where b: "json_buffers (json obj) = Some (buffer0 # rest)"
    by (auto simp: serialize_glb_def Let_def split: option.splits list.splits)
  from assms b that show thesis
    by (simp add: serialize_glb_def Let_def header_eq prefix_eq)
qed

lemma serialize_glb_returns:
  assumes "json_buffers (json obj) = Some (buffer0 # rest)"
  shows "\<exists>out. serialize_glb stringify obj =
     Inr (obj\<lparr>json := (json obj)\<lparr>json_buffers :=
        Some (obj_set buffer0 ''byteLength'' (JNum (real (length (concat (buffers obj))))) # rest)\<rparr>\<rparr>, out)"
  using assms by (simp add: serialize_glb_def Let_def)

lemma sample_json_chunk:
  "getPaddedArrayBuffer (sample_stringify j) (Some 0x20) = [123, 125, 32, 32]"
  by (simp add: getPaddedArrayBuffer_eq getPaddedBufferSize_div sample_stringify_def
      numeral_2_eq_2)

lemma sample_binary_chunk:
  "getPaddedArrayBuffer (concat (buffers sample_obj)) None = [1, 2, 3, 4, 5, 6, 7, 8, 9, 10, 0, 0]"
  by (simp add: getPaddedArrayBuffer_eq getPaddedBufferSize_div sample_obj_def numeral_2_eq_2)

lemma sample_out:
  "serialize_glb sample_stringify sample_obj =
     Inr (sample_obj\<lparr>json := sample_json\<lparr>json_buffers := Some [[(''byteLength'', JNum 10)]]\<rparr>\<rparr>,
          [103, 108, 84, 70, 2, 0, 0, 0, 44, 0, 0, 0,
           4, 0, 0, 0, 74, 83, 79, 78, 123, 125, 32, 32,
           12, 0, 0, 0, 66, 73, 78, 0, 1, 2, 3, 4, 5, 6, 7, 8, 9, 10, 0, 0])"
proof -
  have b: "json_buffers (json sample_obj) = Some [[(''byteLength'', JNum 0)]]"
    by (simp add: sample_obj_def sample_json_def)
  have "serialize_glb sample_stringify sample_obj =
     Inr (sample_obj\<lparr>json := sample_json\<lparr>json_buffers := Some [[(''byteLength'', JNum 10)]]\<rparr>\<rparr>,
       uint32_le GLB_HEADER_MAGIC @ uint32_le GLB_VERSION @ uint32_le 44
         @ uint32_le 4 @ uint32_le GLB_CHUNK_TYPE_JSON @ [123, 125, 32, 32]
         @ uint32_le 12 @ uint32_le GLB_CHUNK_TYPE_BIN @ [1, 2, 3, 4, 5, 6, 7, 8, 9, 10, 0, 0])"
    unfolding serialize_glb_def Let_def b header_eq prefix_eq sample_json_chunk sample_binary_chunk
    by (simp add: sample_obj_def sample_json_def GLB_HEADER_BYTES_def eval_nat_numeral)
  then show ?thesis
    by (simp add: uint32_le_def Let_def GLB_HEADER_MAGIC_def GLB_VERSION_def
        GLB_CHUNK_TYPE_JSON_def GLB_CHUNK_TYPE_BIN_def)
qed

lemma map_of_obj_set_same: "map_of (obj_set kvs k v) k = Some v"
  by (induction kvs) auto

lemma map_of_obj_set_other: "k' \<noteq> k \<Longrightarrow> map_of (obj_set kvs k v) k' = map_of kvs k'"
  by (induction kvs) auto

lemma header_decoded:
  assumes "serialize_glb stringify obj = Inr (obj', out)"
  shows "le_uint32 (take 4 out) = GLB_HEADER_MAGIC mod 2 ^ 32"
    and "le_uint32 (take 4 (drop 4 out)) = GLB_VERSION mod 2 ^ 32"
    and "le_uint32 (take 4 (drop 8 out)) =
           (GLB_HEADER_BYTES + 8
            + length (getPaddedArrayBuffer (stringify (json obj')) (Some 0x20)) + 8
            + length (getPaddedArrayBuffer (concat (buffers obj)) None)) mod 2 ^ 32"
    and "length out = GLB_HEADER_BYTES + 8
            + length (getPaddedArrayBuffer (stringify (json obj')) (Some 0x20)) + 8
            + length (getPaddedArrayBuffer (concat (buffers obj)) None)"
proof -
  let ?J = "getPaddedArrayBuffer (stringify (json obj')) (Some 0x20)"
  let ?B = "getPaddedArrayBuffer (concat (buffers obj)) None"
  let ?T = "GLB_HEADER_BYTES + 8 + length ?J + 8 + length ?B"
  from assms obtain tl where out: "out = uint32_le GLB_HEADER_MAGIC @ uint32_le GLB_VERSION
         @ uint32_le ?T @ tl"
    and len: "length tl = 8 + length ?J + 8 + length ?B"
    by (rule serialize_glb_Inr) simp
  show "le_uint32 (take 4 out) = GLB_HEADER_MAGIC mod 2 ^ 32"
    unfolding out by (simp add: le_uint32_uint32_le)
  show "le_uint32 (take 4 (drop 4 out)) = GLB_VERSION mod 2 ^ 32"
    unfolding out by (simp add: le_uint32_uint32_le)
  show "le_uint32 (take 4 (drop 8 out)) = ?T mod 2 ^ 32"
    unfolding out by (simp add: le_uint32_uint32_le)
  show "length out = ?T"
    unfolding out using len by (simp add: GLB_HEADER_BYTES_def)
qed

lemma length_huge_buffer: "length huge_buffer = 2 ^ 32"
  unfolding huge_buffer_def by (rule length_replicate)

lemma huge_binary_chunk: "getPaddedArrayBuffer (concat (buffers huge_obj)) None = huge_buffer"
proof -
  have "getPaddedBufferSize (2 ^ 32) = 2 ^ 32"
    by (rule getPaddedBufferSize_fixed) simp
  then show ?thesis
    by (simp add: huge_obj_def getPaddedArrayBuffer_eq length_huge_buffer)
qed

subsection \<open>Padded size\<close>

text \<open>
  Claim C4. For every buffer length \<open>L\<close> the padded size is a multiple of 4, is at least
  \<open>L\<close>, is below every other multiple of 4 that is at least \<open>L\<close>, and padding a padded
  size changes nothing.
\<close>

theorem getPaddedBufferSize_smallest_multiple_idempotent:
  "4 dvd getPaddedBufferSize L \<and> L \<le> getPaddedBufferSize L
   \<and> (\<forall>m. 4 dvd m \<and> L \<le> m \<longrightarrow> getPaddedBufferSize L \<le> m)
   \<and> getPaddedBufferSize (getPaddedBufferSize L) = getPaddedBufferSize L"
  by (simp add: getPaddedBufferSize_dvd getPaddedBufferSize_ge getPaddedBufferSize_least
      getPaddedBufferSize_fixed)

theorem getPaddedBufferSize_smallest_multiple_idempotent_witness:
  "4 dvd getPaddedBufferSize 10 \<and> 10 \<le> getPaddedBufferSize 10
   \<and> getPaddedBufferSize 10 \<le> 12
   \<and> getPaddedBufferSize (getPaddedBufferSize 10) = getPaddedBufferSize 10"
proof -
  have h: "4 dvd (12::nat) \<and> (10::nat) \<le> 12" by simp
  from getPaddedBufferSize_smallest_multiple_idempotent [of 10] h show ?thesis by blast
qed

subsection \<open>Chunk payloads\<close>

text \<open>
  Claim C3. A produced container is its 12-byte header, the JSON chunk prefix, the JSON
  payload, the binary chunk prefix and the binary payload. Both payload lengths are
  multiples of 4: the JSON payload is the encoded document followed by bytes 0x20 up to
  the next 4-byte boundary, the binary payload is the concatenated buffers followed by
  zero bytes up to the next 4-byte boundary. A 10-byte payload is padded to 12 bytes, with
  two bytes 0 as a binary payload and two bytes 0x20 as a JSON payload.
\<close>

theorem chunk_payloads_padded_to_4:
  assumes "serialize_glb stringify obj = Inr (obj', out)"
  shows "\<exists>jsonChunk binaryChunk.
      out = take 12 out
          @ uint32_le (length jsonChunk) @ uint32_le GLB_CHUNK_TYPE_JSON @ jsonChunk
          @ uint32_le (length binaryChunk) @ uint32_le GLB_CHUNK_TYPE_BIN @ binaryChunk
    \<and> 4 dvd length jsonChunk \<and> 4 dvd length binaryChunk
    \<and> jsonChunk = stringify (json obj')
        @ replicate (getPaddedBufferSize (length (stringify (json obj')))
                     - length (stringify (json obj'))) 0x20
    \<and> binaryChunk = concat (buffers obj)
        @ replicate (getPaddedBufferSize (length (concat (buffers obj)))
                     - length (concat (buffers obj))) 0
    \<and> length jsonChunk = getPaddedBufferSize (length (stringify (json obj')))
    \<and> length binaryChunk = getPaddedBufferSize (length (concat (buffers obj)))
    \<and> (\<forall>payload. length payload = 10 \<longrightarrow>
           getPaddedArrayBuffer payload None = payload @ [0, 0]
         \<and> getPaddedArrayBuffer payload (Some 0x20) = payload @ [0x20, 0x20])"
proof -
  let ?J = "getPaddedArrayBuffer (stringify (json obj')) (Some 0x20)"
  let ?B = "getPaddedArrayBuffer (concat (buffers obj)) None"
  from assms have out: "out = (uint32_le GLB_HEADER_MAGIC @ uint32_le GLB_VERSION
         @ uint32_le (GLB_HEADER_BYTES + 8 + length ?J + 8 + length ?B))
         @ uint32_le (length ?J) @ uint32_le GLB_CHUNK_TYPE_JSON @ ?J
         @ uint32_le (length ?B) @ uint32_le GLB_CHUNK_TYPE_BIN @ ?B"
    by (rule serialize_glb_Inr) simp
  have t: "take 12 out = uint32_le GLB_HEADER_MAGIC @ uint32_le GLB_VERSION
         @ uint32_le (GLB_HEADER_BYTES + 8 + length ?J + 8 + length ?B)"
    by (subst out, subst take_append) simp
  have 1: "out = take 12 out @ uint32_le (length ?J) @ uint32_le GLB_CHUNK_TYPE_JSON @ ?J
         @ uint32_le (length ?B) @ uint32_le GLB_CHUNK_TYPE_BIN @ ?B"
    unfolding t using out by simp
  have 2: "4 dvd length ?J" "4 dvd length ?B"
    by (simp_all add: length_getPaddedArrayBuffer getPaddedBufferSize_dvd)
  have 3: "?J = stringify (json obj')
        @ replicate (getPaddedBufferSize (length (stringify (json obj')))
                     - length (stringify (json obj'))) 0x20"
    by (simp add: getPaddedArrayBuffer_eq)
  have 4: "?B = concat (buffers obj)
        @ replicate (getPaddedBufferSize (length (concat (buffers obj)))
                     - length (concat (buffers obj))) 0"
    by (simp add: getPaddedArrayBuffer_eq)
  have 5: "\<forall>payload :: byte list. length payload = 10 \<longrightarrow>
           getPaddedArrayBuffer payload None = payload @ [0, 0]
         \<and> getPaddedArrayBuffer payload (Some 0x20) = payload @ [0x20, 0x20]"
    by (simp add: getPaddedArrayBuffer_eq getPaddedBufferSize_div numeral_2_eq_2)
  show ?thesis
    by (intro exI [of _ ?J] exI [of _ ?B] conjI 1 2 3 4 5 length_getPaddedArrayBuffer)
qed

theorem chunk_payloads_padded_to_4_witness:
  "\<exists>jsonChunk binaryChunk.
      [103, 108, 84, 70, 2, 0, 0, 0, 44, 0, 0, 0,
       4, 0, 0, 0, 74, 83, 79, 78, 123, 125, 32, 32,
       12, 0, 0, 0, 66, 73, 78, 0, 1, 2, 3, 4, 5, 6, 7, 8, 9, 10, 0, 0]
      = [103, 108, 84, 70, 2, 0, 0, 0, 44, 0, 0, 0]
        @ uint32_le (length jsonChunk) @ uint32_le GLB_CHUNK_TYPE_JSON @ jsonChunk
        @ uint32_le (length binaryChunk) @ uint32_le GLB_CHUNK_TYPE_BIN @ binaryChunk
    \<and> 4 dvd length jsonChunk \<and> 4 dvd length binaryChunk
    \<and> jsonChunk = [0x7B, 0x7D, 0x20, 0x20]
    \<and> binaryChunk = [1, 2, 3, 4, 5, 6, 7, 8, 9, 10, 0, 0]
    \<and> getPaddedArrayBuffer [1, 2, 3, 4, 5, 6, 7, 8, 9, 10] None
        = [1, 2, 3, 4, 5, 6, 7, 8, 9, 10, 0, 0]
    \<and> getPaddedArrayBuffer [1, 2, 3, 4, 5, 6, 7, 8, 9, 10] (Some 0x20)
        = [1, 2, 3, 4, 5, 6, 7, 8, 9, 10, 0x20, 0x20]"
proof -
  have p: "getPaddedBufferSize (Suc (Suc 0)) = 4"
    "getPaddedBufferSize (Suc (Suc (Suc (Suc (Suc (Suc (Suc (Suc (Suc (Suc 0)))))))))) = 12"
    by (simp_all add: getPaddedBufferSize_div)
  have l: "length [1, 2, 3, 4, 5, 6, 7, 8, 9, 10 :: byte] = 10" by simp
  from chunk_payloads_padded_to_4 [OF sample_out] l show ?thesis
    by (simp add: sample_stringify_def sample_obj_def p numeral_2_eq_2)
qed

subsection \<open>Header\<close>

text \<open>
  Claim C2, amended. A produced container starts with three little-endian 32-bit unsigned
  fields: the magic constant, the version 2 and the total length. The container is
  12 + 8 + (padded JSON length) + 8 + (padded binary length) bytes long, and the
  total-length field holds that length modulo \<open>2 ^ 32\<close>, which is the length itself for
  every container shorter than \<open>2 ^ 32\<close> bytes.
\<close>

theorem header_magic_version_total_length:
  assumes "serialize_glb stringify obj = Inr (obj', out)"
  shows "le_uint32 (take 4 out) = GLB_HEADER_MAGIC
       \<and> le_uint32 (take 4 (drop 4 out)) = GLB_VERSION \<and> GLB_VERSION = 2
       \<and> length out = 12 + 8
            + length (getPaddedArrayBuffer (stringify (json obj')) (Some 0x20)) + 8
            + length (getPaddedArrayBuffer (concat (buffers obj)) None)
       \<and> le_uint32 (take 4 (drop 8 out)) = length out mod 2 ^ 32
       \<and> (length out < 2 ^ 32 \<longrightarrow> le_uint32 (take 4 (drop 8 out)) = length out)"
  using header_decoded [OF assms]
  by (simp add: GLB_HEADER_MAGIC_def GLB_VERSION_def GLB_HEADER_BYTES_def)

theorem header_magic_version_total_length_witness:
  "le_uint32 [103, 108, 84, 70] = GLB_HEADER_MAGIC \<and> le_uint32 [2, 0, 0, 0] = GLB_VERSION
   \<and> le_uint32 [44, 0, 0, 0] = 44
   \<and> 44 = 12 + 8 + length (getPaddedArrayBuffer (sample_stringify sample_json) (Some 0x20)) + 8
            + length (getPaddedArrayBuffer (concat (buffers sample_obj)) None)"
  using header_magic_version_total_length [OF sample_out]
  by (simp add: sample_json_chunk sample_binary_chunk)

text \<open>
  With a binary buffer of \<open>2 ^ 32\<close> bytes the container is \<open>2 ^ 32 + 32\<close> bytes long and
  the total-length field holds 32: the field differs from the sum the claim equates it
  with.
\<close>

theorem total_length_field_counterexample:
  "\<not> isl (serialize_glb sample_stringify huge_obj)
   \<and> le_uint32 (take 4 (drop 8 (snd (projr (serialize_glb sample_stringify huge_obj)))))
     \<noteq> 12 + 8
       + length (getPaddedArrayBuffer
           (sample_stringify (json (fst (projr (serialize_glb sample_stringify huge_obj)))))
           (Some 0x20))
       + 8
       + length (getPaddedArrayBuffer (concat (buffers huge_obj)) None)"
proof -
  have "json_buffers (json huge_obj) = Some ([(''byteLength'', JNum 0)] # [])"
    by (simp add: huge_obj_def sample_json_def)
  from serialize_glb_returns [OF this, of sample_stringify]
  obtain obj' out where r: "serialize_glb sample_stringify huge_obj = Inr (obj', out)"
    by blast
  have "le_uint32 (take 4 (drop 8 out)) = (12 + 8 + 4 + 8 + 2 ^ 32) mod 2 ^ 32"
    using header_decoded(3) [OF r]
    by (simp only: sample_json_chunk huge_binary_chunk length_huge_buffer GLB_HEADER_BYTES_def
        list.size One_nat_def) simp
  then have "le_uint32 (take 4 (drop 8 out)) = 32"
    by simp
  with r show ?thesis
    by (simp add: sample_json_chunk huge_binary_chunk length_huge_buffer)
qed

subsection \<open>Recorded byte length\<close>

text \<open>
  Claim C8. When the document declares a first buffer entry, the writer returns; the
  entry's \<open>byteLength\<close> is then the size of the concatenated input buffers, without
  padding, and the other members of the entry are unchanged. The JSON payload is the
  padded encoding of the document updated in this way, and the binary payload starts
  with the concatenated buffers.
\<close>

theorem first_buffer_byteLength_is_unpadded_size:
  assumes "json_buffers (json obj) = Some (buffer0 # rest)"
  shows "\<exists>obj' out buffer0'.
      serialize_glb stringify obj = Inr (obj', out)
    \<and> json_buffers (json obj') = Some (buffer0' # rest)
    \<and> map_of buffer0' ''byteLength'' = Some (JNum (real (sum_list (map length (buffers obj)))))
    \<and> (\<forall>k. k \<noteq> ''byteLength'' \<longrightarrow> map_of buffer0' k = map_of buffer0 k)
    \<and> take (getPaddedBufferSize (length (stringify (json obj')))) (drop 20 out)
        = getPaddedArrayBuffer (stringify (json obj')) (Some 0x20)
    \<and> drop (28 + getPaddedBufferSize (length (stringify (json obj')))) out
        = getPaddedArrayBuffer (concat (buffers obj)) None
    \<and> take (sum_list (map length (buffers obj)))
          (drop (28 + getPaddedBufferSize (length (stringify (json obj')))) out)
        = concat (buffers obj)"
proof -
  let ?b0 = "obj_set buffer0 ''byteLength'' (JNum (real (length (concat (buffers obj)))))"
  let ?obj' = "obj\<lparr>json := (json obj)\<lparr>json_buffers := Some (?b0 # rest)\<rparr>\<rparr>"
  let ?J = "getPaddedArrayBuffer (stringify (json ?obj')) (Some 0x20)"
  let ?B = "getPaddedArrayBuffer (concat (buffers obj)) None"
  from serialize_glb_returns [OF assms, of stringify]
  obtain out where r: "serialize_glb stringify obj = Inr (?obj', out)"
    by blast
  define hd where "hd = uint32_le GLB_HEADER_MAGIC @ uint32_le GLB_VERSION
         @ uint32_le (GLB_HEADER_BYTES + 8 + length ?J + 8 + length ?B)"
  define pj where "pj = uint32_le (length ?J) @ uint32_le GLB_CHUNK_TYPE_JSON"
  define pb where "pb = uint32_le (length ?B) @ uint32_le GLB_CHUNK_TYPE_BIN"
  from r have out: "out = hd @ pj @ ?J @ pb @ ?B"
    unfolding hd_def pj_def pb_def by (rule serialize_glb_Inr) simp
  have l: "length hd = 12" "length pj = 8" "length pb = 8"
    by (simp_all add: hd_def pj_def pb_def)
  have lj: "length ?J = getPaddedBufferSize (length (stringify (json ?obj')))"
    by (rule length_getPaddedArrayBuffer)
  have 1: "take (getPaddedBufferSize (length (stringify (json ?obj')))) (drop 20 out) = ?J"
    unfolding out using l lj by simp
  have 2: "drop (28 + getPaddedBufferSize (length (stringify (json ?obj')))) out = ?B"
    unfolding out using l lj by simp
  have 3: "take (sum_list (map length (buffers obj))) ?B = concat (buffers obj)"
    by (simp add: getPaddedArrayBuffer_eq length_concat)
  have 4: "map_of ?b0 ''byteLength'' = Some (JNum (real (sum_list (map length (buffers obj)))))"
    by (simp add: map_of_obj_set_same length_concat)
  have 5: "\<forall>k. k \<noteq> ''byteLength'' \<longrightarrow> map_of ?b0 k = map_of buffer0 k"
    by (simp add: map_of_obj_set_other)
  have 6: "json_buffers (json ?obj') = Some (?b0 # rest)"
    by simp
  show ?thesis
    using r 1 2 3 4 5 6 by (intro exI [of _ ?obj'] exI [of _ out] exI [of _ ?b0] conjI) simp_all
qed

theorem first_buffer_byteLength_is_unpadded_size_witness:
  "\<exists>obj' out buffer0'.
      serialize_glb sample_stringify sample_obj = Inr (obj', out)
    \<and> json_buffers (json obj') = Some [buffer0']
    \<and> map_of buffer0' ''byteLength'' = Some (JNum 10)
    \<and> drop 32 out = getPaddedArrayBuffer (concat (buffers sample_obj)) None
    \<and> length (drop 32 out) = 12"
proof -
  have b: "json_buffers (json sample_obj) = Some ([(''byteLength'', JNum 0)] # [])"
    by (simp add: sample_obj_def sample_json_def)
  have p: "getPaddedBufferSize (Suc (Suc 0)) = 4"
    by (simp add: getPaddedBufferSize_div)
  from first_buffer_byteLength_is_unpadded_size [OF b, of sample_stringify]
  obtain obj' out buffer0' where
      "serialize_glb sample_stringify sample_obj = Inr (obj', out)"
      "json_buffers (json obj') = Some [buffer0']"
      "map_of buffer0' ''byteLength''
         = Some (JNum (real (sum_list (map length (buffers sample_obj)))))"
      "drop (28 + getPaddedBufferSize (length (sample_stringify (json obj')))) out
        = getPaddedArrayBuffer (concat (buffers sample_obj)) None"
    by blast
  then show ?thesis
    by (intro exI [of _ obj'] exI [of _ out] exI [of _ buffer0'])
       (simp add: sample_stringify_def p sample_binary_chunk, simp add: sample_obj_def)
qed

section \<open>Properties of the reference mapping\<close>

lemma js_bind_return [simp]: "js_bind (js_return x) f = f x"
  by (simp add: js_bind_def js_return_def split: prod.splits)

lemma js_bind_throw [simp]: "js_bind (js_throw e) f = js_throw e"
  by (simp add: js_bind_def js_throw_def)

lemma js_bind_Inr [simp]: "js_bind (Inr x, w) f = (fst (f x), w @ snd (f x))"
  by (simp add: js_bind_def split: prod.splits)

lemma js_bind_Inl [simp]: "js_bind (Inl e, w) f = (Inl e, w)"
  by (simp add: js_bind_def)

lemma js_bind_InrE:
  assumes "js_bind m f = (Inr y, w)"
  obtains x w1 w2 where "m = (Inr x, w1)" "f x = (Inr y, w2)" "w = w1 @ w2"
  using assms by (cases m; cases "fst m") (auto simp: js_bind_def split: prod.splits)

lemma js_return_eq [simp]: "js_return x = (Inr y, w) \<longleftrightarrow> x = y \<and> w = []"
  by (auto simp: js_return_def)

lemma js_throw_neq [simp]: "js_throw e \<noteq> (Inr y, w)"
  by (simp add: js_throw_def)

lemma js_get_ok [simp]: "\<not> nullish v \<Longrightarrow> js_get v k = js_return (prop_of v k)"
  by (simp add: js_get_def)

lemma js_get_InrE:
  assumes "js_get v k = (Inr x, w)"
  obtains "\<not> nullish v" "x = prop_of v k" "w = []"
  using assms by (auto simp: js_get_def split: if_splits)

lemma convert_vrm_secondaryAnimation:
  assumes "convert_vrm m vrm = (Inr out, w)"
  shows "prop_of out ''secondaryAnimation'' = JObj []"
  using assms unfolding convert_vrm_def
  by (elim js_bind_InrE) auto

lemma returns_return [simp]: "returns (js_return x)"
  by (simp add: returns_def js_return_def)

lemma returns_throw [simp]: "\<not> returns (js_throw e)"
  by (simp add: returns_def js_throw_def)

lemma returns_pair [simp]: "returns (Inr x, w)" "\<not> returns (Inl e, w)"
  by (simp_all add: returns_def)

lemma returns_bind [simp]:
  "returns (js_bind m f) \<longleftrightarrow> returns m \<and> returns (f (projr (fst m)))"
  by (cases m; cases "fst m") (auto simp: returns_def js_bind_def split: prod.splits)

lemma returns_iff: "returns m \<longleftrightarrow> (\<exists>x w. m = (Inr x, w))"
  by (cases m; cases "fst m") (auto simp: returns_def)

lemma returns_get [simp]: "returns (js_get v k) \<longleftrightarrow> \<not> nullish v"
  by (simp add: js_get_def)

lemma returns_map_list: "(\<forall>x \<in> set xs. returns (f x)) \<Longrightarrow> returns (js_map_list f xs)"
  by (induction xs) simp_all

lemma returns_array_map:
  "is_array v \<Longrightarrow> list_all (\<lambda>x. returns (f x)) (elements v) \<Longrightarrow> returns (js_array_map f v)"
  by (cases v) (simp_all add: returns_map_list list_all_iff)

lemma returns_bind_blendshape:
  "lenient m \<Longrightarrow> has_mesh b \<Longrightarrow> returns (convert_blendshape_bind m b)"
  by (simp add: convert_blendshape_bind_def has_mesh_def lenient_def)

lemma returns_group:
  "lenient m \<Longrightarrow> group_shaped g \<Longrightarrow> returns (convert_blendshape_group m g)"
  by (simp add: convert_blendshape_group_def group_shaped_def returns_array_map
      returns_bind_blendshape list_all_iff)

lemma returns_blendshape:
  "lenient m \<Longrightarrow> \<not> nullish b \<Longrightarrow> is_array (prop_of b ''blendShapeGroups'')
   \<Longrightarrow> list_all group_shaped (elements (prop_of b ''blendShapeGroups''))
   \<Longrightarrow> returns (convert_blendshape m b)"
  by (simp add: convert_blendshape_def returns_array_map returns_group list_all_iff)

lemma returns_bone: "lenient m \<Longrightarrow> \<not> nullish b \<Longrightarrow> returns (convert_humanoid_bone m b)"
  by (simp add: convert_humanoid_bone_def lenient_def)

lemma returns_humanoid:
  "lenient m \<Longrightarrow> \<not> nullish h \<Longrightarrow> is_array (prop_of h ''humanBones'')
   \<Longrightarrow> list_all (\<lambda>bone. \<not> nullish bone) (elements (prop_of h ''humanBones''))
   \<Longrightarrow> returns (convert_humanoid m h)"
  by (simp add: convert_humanoid_def returns_array_map returns_bone list_all_iff)

lemma returns_annotation:
  "lenient m \<Longrightarrow> has_mesh a \<Longrightarrow> returns (convert_firstperson_meshannotation m a)"
  by (simp add: convert_firstperson_meshannotation_def has_mesh_def lenient_def)

lemma returns_firstperson:
  "lenient m \<Longrightarrow> \<not> nullish fp \<Longrightarrow> is_array (prop_of fp ''meshAnnotations'')
   \<Longrightarrow> list_all has_mesh (elements (prop_of fp ''meshAnnotations''))
   \<Longrightarrow> returns (convert_firstperson m fp)"
  by (simp add: convert_firstperson_def returns_array_map returns_annotation list_all_iff lenient_def)

lemma returns_texture_properties:
  "lenient m \<Longrightarrow> ''size'' \<notin> fst ` set entries
   \<Longrightarrow> returns (convert_texture_properties m entries texProp)"
proof (induction entries arbitrary: texProp)
  case Nil
  then show ?case by simp
next
  case (Cons entry entries)
  obtain k v where e: "entry = (k, v)" by (cases entry)
  from Cons.prems have k: "k \<noteq> ''size''" and rest: "''size'' \<notin> fst ` set entries"
    by (auto simp: e)
  from Cons.prems(1) have t: "returns (map_texture m v)"
    by (simp add: lenient_def)
  have s: "returns (map_object_set texProp k (projr (fst (map_texture m v))))"
    using k by (cases texProp) (simp add: map_object_set_def)
  show ?case
    unfolding e using t s Cons.IH [OF Cons.prems(1) rest] by simp
qed

lemma returns_material:
  "lenient m \<Longrightarrow> material_shaped mat \<Longrightarrow> returns (convert_material m mat)"
  by (simp add: convert_material_def material_shaped_def returns_texture_properties)

lemma returns_vrm: "lenient m \<Longrightarrow> vrm_shaped vrm \<Longrightarrow> returns (convert_vrm m vrm)"
  unfolding vrm_shaped_def convert_vrm_def
  by (simp add: returns_blendshape returns_humanoid returns_firstperson returns_array_map
      returns_material list_all_iff)

lemma returns_js_first: "\<not> nullish r \<Longrightarrow> returns (js_first r)"
  by (cases r) (simp_all add: nullish_def)

lemma js_first_ok: "\<not> nullish r \<Longrightarrow> js_first r = js_return (projr (fst (js_first r)))"
  by (cases r) (simp_all add: nullish_def js_return_def)

lemma export_map_node_unresolved:
  "nodeMap_get (nodeMap obj) node_ref = None \<Longrightarrow>
   export_map_node obj node_ref
     = (Inr (JNum 0), [ConsoleWarn ''map_node failed (not found in nodeMap)'' [node_ref]])"
  by (simp add: export_map_node_def js_warn_def js_return_def)

lemma export_map_node_resolved:
  "nodeMap_get (nodeMap obj) node_ref = Some i \<Longrightarrow>
   export_map_node obj node_ref = (Inr (JNum (real i)), [])"
  by (simp add: export_map_node_def js_return_def)

lemma js_findIndex_from_pure:
  "(\<And>x. x \<in> set xs \<Longrightarrow> p x = js_return (q x)) \<Longrightarrow>
   js_findIndex_from i p xs = js_return (findIndex_from i q xs)"
  by (induction xs arbitrary: i) simp_all

lemma js_findIndex_pure:
  "(\<And>x. x \<in> set xs \<Longrightarrow> p x = js_return (q x)) \<Longrightarrow>
   js_findIndex p xs = js_return (findIndex q xs)"
  unfolding js_findIndex_def findIndex_def by (rule js_findIndex_from_pure)

lemma export_map_mesh_first:
  assumes "js_first mesh_ref = (Inr first, [])"
  shows "export_map_mesh obj mesh_ref =
     (if findIndex (\<lambda>e. JHost e = first) (skins obj) < 0
      then (Inr (JNum 0), [ConsoleWarn ''map_node failed (not found in skins)'' [mesh_ref]])
      else (Inr (JNum (real_of_int (findIndex (\<lambda>e. JHost e = first) (skins obj)))), []))"
proof -
  have "js_findIndex
          (\<lambda>e. js_bind (js_first mesh_ref) (\<lambda>mesh_ref_0. js_return (JHost e = mesh_ref_0)))
          (skins obj)
        = js_return (findIndex (\<lambda>e. JHost e = first) (skins obj))"
    by (rule js_findIndex_pure) (simp add: assms)
  then show ?thesis
    by (simp add: export_map_mesh_def js_warn_def js_return_def)
qed

lemma export_map_mesh_eq:
  "\<not> nullish mesh_ref \<Longrightarrow>
   export_map_mesh obj mesh_ref =
     (if findIndex (\<lambda>e. JHost e = projr (fst (js_first mesh_ref))) (skins obj) < 0
      then (Inr (JNum 0), [ConsoleWarn ''map_node failed (not found in skins)'' [mesh_ref]])
      else (Inr (JNum (real_of_int
              (findIndex (\<lambda>e. JHost e = projr (fst (js_first mesh_ref))) (skins obj)))), []))"
  using js_first_ok [of mesh_ref]
  by (intro export_map_mesh_first) (simp add: js_return_def)

lemma export_map_texture_eq:
  "export_map_texture tex_ref = (Inr (JNum 0), [ConsoleLog ''map_texture'' [tex_ref]])"
  by (simp add: export_map_texture_def js_log_def js_return_def)

lemma lenient_ref_to_id: "lenient (ref_to_id obj)"
proof -
  have "returns (export_map_node obj r)" for r
    by (cases "nodeMap_get (nodeMap obj) r")
       (simp_all add: export_map_node_unresolved export_map_node_resolved)
  moreover have "returns (export_map_mesh obj r)" if "\<not> nullish r" for r
    using that by (simp add: export_map_mesh_eq)
  moreover have "returns (export_map_texture r)" for r
    by (simp add: export_map_texture_eq)
  ultimately show ?thesis
    by (simp add: lenient_def ref_to_id_def)
qed

lemma findIndex_from_none:
  "i \<ge> 0 \<Longrightarrow> findIndex_from i p xs < 0 \<longleftrightarrow> (\<forall>x \<in> set xs. \<not> p x)"
proof (induction xs arbitrary: i)
  case Nil
  then show ?case by simp
next
  case (Cons x xs)
  from Cons.prems have "i + 1 \<ge> 0" by simp
  from Cons.IH [OF this] Cons.prems show ?case by auto
qed

lemma findIndex_none: "findIndex p xs < 0 \<longleftrightarrow> (\<forall>x \<in> set xs. \<not> p x)"
  unfolding findIndex_def by (rule findIndex_from_none) simp

lemma findIndex_from_found:
  "0 \<le> i \<Longrightarrow> \<not> findIndex_from i p xs < 0 \<Longrightarrow>
   (\<exists>n < length xs. findIndex_from i p xs = i + int n \<and> p (xs ! n) \<and> (\<forall>k < n. \<not> p (xs ! k)))"
proof (induction xs arbitrary: i)
  case Nil
  then show ?case by simp
next
  case (Cons x xs)
  show ?case
  proof (cases "p x")
    case True
    then show ?thesis by (intro exI [of _ 0]) simp
  next
    case False
    with Cons.prems have "0 \<le> i + 1" "\<not> findIndex_from (i + 1) p xs < 0" by simp_all
    from Cons.IH [OF this] obtain n where n: "n < length xs"
      "findIndex_from (i + 1) p xs = i + 1 + int n" "p (xs ! n)" "\<forall>k < n. \<not> p (xs ! k)"
      by blast
    have "\<forall>k < Suc n. \<not> p ((x # xs) ! k)"
      using False n(4) by (auto simp: less_Suc_eq_0_disj)
    with False n show ?thesis by (intro exI [of _ "Suc n"]) simp
  qed
qed

lemma findIndex_found:
  "\<not> findIndex p xs < 0 \<Longrightarrow>
   (\<exists>n < length xs. findIndex p xs = int n \<and> p (xs ! n) \<and> (\<forall>k < n. \<not> p (xs ! k)))"
  unfolding findIndex_def using findIndex_from_found [of 0 p xs] by simp

lemmas walker_defs =
  convert_vrm_def convert_blendshape_def convert_blendshape_group_def convert_blendshape_bind_def
  convert_humanoid_def convert_humanoid_bone_def convert_firstperson_def
  convert_firstperson_meshannotation_def convert_material_def

lemmas export_defs =
  ref_to_id_def export_map_node_def export_map_mesh_def export_map_texture_def
  js_warn_def js_log_def js_findIndex_def findIndex_def

lemmas js_defs = js_bind_def js_return_def js_throw_def js_get_def nullish_def

lemma avatar_export:
  "convert_vrm (ref_to_id avatar_obj) avatar_vrm = (Inr avatar_wire, [])"
  by (simp add: walker_defs export_defs js_defs avatar_obj_def avatar_vrm_def avatar_wire_def
      avatar_blendShapeMaster_def avatar_humanoid_def avatar_firstPerson_def)

lemma foldl_set_add_prefix: "\<exists>r. foldl set_add acc xs = acc @ r"
proof (induction xs arbitrary: acc)
  case Nil
  then show ?case by simp
next
  case (Cons x xs)
  from Cons.IH [of "set_add acc x"] obtain r where r: "foldl set_add (set_add acc x) xs = set_add acc x @ r"
    by blast
  show ?case
  proof (cases "x \<in> set acc")
    case True
    with r have "foldl set_add acc (x # xs) = acc @ r" by (simp add: set_add_def)
    then show ?thesis by blast
  next
    case False
    with r have "foldl set_add acc (x # xs) = acc @ (x # r)" by (simp add: set_add_def)
    then show ?thesis by blast
  qed
qed

lemma foldl_set_add_distinct:
  "distinct acc \<Longrightarrow> distinct (foldl set_add acc xs) \<and> set (foldl set_add acc xs) = set acc \<union> set xs"
proof (induction xs arbitrary: acc)
  case Nil
  then show ?case by simp
next
  case (Cons x xs)
  from Cons.prems have "distinct (set_add acc x)" by (simp add: set_add_def)
  from Cons.IH [OF this] show ?case by (auto simp: set_add_def)
qed

lemma foldl_set_add_fresh: "distinct (acc @ xs) \<Longrightarrow> foldl set_add acc xs = acc @ xs"
proof (induction xs arbitrary: acc)
  case Nil
  then show ?case by simp
next
  case (Cons x xs)
  from Cons.prems have 1: "set_add acc x = acc @ [x]" by (simp add: set_add_def)
  from Cons.prems have "distinct ((acc @ [x]) @ xs)" by simp
  from Cons.IH [OF this] 1 show ?case by simp
qed

lemma array_from_set_distinct: "distinct (array_from_set xs)" "set (array_from_set xs) = set xs"
  using foldl_set_add_distinct [of "[]" xs] by (simp_all add: array_from_set_def)

lemma array_from_set_again: "array_from_set (x # array_from_set (x # xs)) = array_from_set (x # xs)"
proof -
  have s: "set_add [] x = [x]" by (simp add: set_add_def)
  obtain r where r: "array_from_set (x # xs) = x # r"
    using foldl_set_add_prefix [of "[x]" xs] by (auto simp: array_from_set_def s)
  have d: "distinct (x # r)"
    using array_from_set_distinct(1) [of "x # xs"] by (simp add: r)
  have "array_from_set (x # x # r) = foldl set_add [x] r"
    by (simp add: array_from_set_def s set_add_def)
  also have "\<dots> = [x] @ r"
    using d by (intro foldl_set_add_fresh) simp
  finally show ?thesis by (simp add: r)
qed

lemma ref_to_id_cong:
  "nodeMap obj' = nodeMap obj \<Longrightarrow> skins obj' = skins obj \<Longrightarrow> ref_to_id obj' = ref_to_id obj"
proof -
  assume a: "nodeMap obj' = nodeMap obj" "skins obj' = skins obj"
  have "export_map_node obj' = export_map_node obj"
    by (rule ext) (simp add: export_map_node_def a)
  moreover have "export_map_mesh obj' = export_map_mesh obj"
    by (rule ext) (simp add: export_map_mesh_def a)
  ultimately show ?thesis by (simp add: ref_to_id_def)
qed

lemma attach_vrm_extension_InrE:
  assumes "attach_vrm_extension vrm_ext obj = (Inr obj', w)"
  obtains ext_with_ids w0 where
    "\<not> nullish vrm_ext"
    "convert_vrm (ref_to_id obj) (prop_of vrm_ext ''vrm'') = (Inr ext_with_ids, w0)"
    "w = ConsoleLog ''Attaching VRM'' [vrm_ext] # w0"
    "obj' = obj\<lparr>json := (json obj)\<lparr>
        extensions := Some (obj_set (case extensions (json obj) of None \<Rightarrow> [] | Some exts \<Rightarrow> exts)
                              ''VRM'' (set_member ext_with_ids ''exporterVersion'' (JStr ''me/v''))),
        extensionsUsed := Some (array_from_set
           (''VRM'' # (case extensionsUsed (json obj) of None \<Rightarrow> [] | Some used \<Rightarrow> used)))\<rparr>\<rparr>"
proof -
  from assms have n: "\<not> nullish vrm_ext"
    by (auto simp: attach_vrm_extension_def js_log_def Let_def js_get_def js_throw_def)
  obtain r w0 where c: "convert_vrm (ref_to_id obj) (prop_of vrm_ext ''vrm'') = (r, w0)"
    by (cases "convert_vrm (ref_to_id obj) (prop_of vrm_ext ''vrm'')")
  with assms n obtain ext where r: "r = Inr ext"
    by (cases r) (auto simp: attach_vrm_extension_def js_log_def Let_def)
  from assms n c r that [of ext w0] show thesis
    by (auto simp: attach_vrm_extension_def js_log_def Let_def js_return_def)
qed

lemma attach_vrm_extension_returns:
  assumes "\<not> nullish vrm_ext"
    and "convert_vrm (ref_to_id obj) (prop_of vrm_ext ''vrm'') = (Inr ext_with_ids, w0)"
  shows "attach_vrm_extension vrm_ext obj =
    (Inr (obj\<lparr>json := (json obj)\<lparr>
        extensions := Some (obj_set (case extensions (json obj) of None \<Rightarrow> [] | Some exts \<Rightarrow> exts)
                              ''VRM'' (set_member ext_with_ids ''exporterVersion'' (JStr ''me/v''))),
        extensionsUsed := Some (array_from_set
           (''VRM'' # (case extensionsUsed (json obj) of None \<Rightarrow> [] | Some used \<Rightarrow> used)))\<rparr>\<rparr>),
     ConsoleLog ''Attaching VRM'' [vrm_ext] # w0)"
  using assms by (simp add: attach_vrm_extension_def js_log_def Let_def js_return_def)

lemma js_map_list_InrD:
  "js_map_list f xs = (Inr ys, w) \<Longrightarrow> list_all2 (\<lambda>x y. \<exists>w'. f x = (Inr y, w')) xs ys"
proof (induction xs arbitrary: ys w)
  case Nil
  then show ?case by simp
next
  case (Cons x xs)
  from Cons.prems obtain y w1 ys' w2 where
    "f x = (Inr y, w1)" "js_map_list f xs = (Inr ys', w2)" "ys = y # ys'"
    by (auto elim!: js_bind_InrE)
  with Cons.IH show ?case by auto
qed

lemma js_array_map_InrE:
  assumes "js_array_map f v = (Inr out, w)"
  obtains xs ys where "v = JArr xs" "out = JArr ys"
    "list_all2 (\<lambda>x y. \<exists>w'. f x = (Inr y, w')) xs ys"
proof (cases v)
  case (JArr xs)
  with assms obtain ys w' where "js_map_list f xs = (Inr ys, w')" "out = JArr ys"
    by (auto elim!: js_bind_InrE)
  with JArr that show thesis by (blast dest: js_map_list_InrD)
qed (use assms in simp_all)

lemma convert_blendshape_group_presetName:
  assumes "convert_blendshape_group m grp = (Inr out, w)"
  shows "prop_of out ''presetName'' = prop_of grp ''presetName''"
  using assms unfolding convert_blendshape_group_def
  by (elim js_bind_InrE js_get_InrE) auto

lemma thirdparty_blendshape_export:
  "convert_blendshape (ref_to_id avatar_obj) thirdparty_blendShapeMaster =
    (Inr (JObj [(''blendShapeGroups'', JArr [
       JObj [(''name'', JStr ''Surprised''), (''presetName'', JStr ''surprised''),
             (''binds'', JArr [JObj [(''mesh'', JNum 0), (''index'', JNum 3), (''weight'', JNum 100)]]),
             (''materialValues'', JArr [])],
       JObj [(''name'', JStr ''Extra1''), (''presetName'', JStr ''unknown''),
             (''binds'', JArr []), (''materialValues'', JArr [])],
       JObj [(''name'', JStr ''Extra2''), (''presetName'', JStr ''unknown''),
             (''binds'', JArr []), (''materialValues'', JArr [])]])]),
     [ConsoleWarn ''map_node failed (not found in skins)'' [JArr [JHost 99]]])"
  by (simp add: walker_defs export_defs js_defs avatar_obj_def thirdparty_blendShapeMaster_def
      surprised_group_def dangling_bind_def)

lemmas import_defs = ref_to_real_def array_at_def key_of_string_def parse_index_def

lemma findIndex_first:
  assumes "n < length xs" "p (xs ! n)" "\<forall>k < n. \<not> p (xs ! k)"
  shows "findIndex p xs = int n"
proof -
  from assms(1,2) have "\<not> findIndex p xs < 0"
    by (auto simp: findIndex_none)
  from findIndex_found [OF this] obtain n' where n': "n' < length xs" "findIndex p xs = int n'"
    "p (xs ! n')" "\<forall>k < n'. \<not> p (xs ! k)"
    by blast
  from n'(3) assms(3) have "\<not> n' < n" by blast
  moreover from assms(2) n'(4) have "\<not> n < n'" by blast
  ultimately show ?thesis using n'(2) by simp
qed

lemma convert_blendshape_bind_mesh:
  assumes "convert_blendshape_bind m b = (Inr out, w)"
  shows "\<exists>w'. map_mesh m (prop_of b ''mesh'') = (Inr (prop_of out ''mesh''), w')"
  using assms unfolding convert_blendshape_bind_def
  by (elim js_bind_InrE js_get_InrE) auto

lemma convert_firstperson_meshannotation_mesh:
  assumes "convert_firstperson_meshannotation m a = (Inr out, w)"
  shows "\<exists>w'. map_mesh m (prop_of a ''mesh'') = (Inr (prop_of out ''mesh''), w')"
  using assms unfolding convert_firstperson_meshannotation_def
  by (elim js_bind_InrE js_get_InrE) auto

lemma unresolved_mesh:
  assumes "\<not> nullish mesh_ref" "\<not> resolves_mesh obj mesh_ref"
  shows "export_map_mesh obj mesh_ref
      = (Inr (JNum 0), [ConsoleWarn ''map_node failed (not found in skins)'' [mesh_ref]])"
proof -
  from assms(1) obtain first where f: "js_first mesh_ref = (Inr first, [])"
    using js_first_ok [of mesh_ref] by (auto simp: js_return_def)
  with assms(2) have "\<forall>e \<in> set (skins obj). JHost e \<noteq> first"
    by (auto simp: resolves_mesh_def js_return_def)
  then have "findIndex (\<lambda>e. JHost e = first) (skins obj) < 0"
    by (simp add: findIndex_none)
  then show ?thesis
    by (simp add: export_map_mesh_first [OF f])
qed

lemma thirdparty_export:
  "convert_vrm (ref_to_id avatar_obj) thirdparty_vrm =
    (Inr thirdparty_wire,
     [ConsoleWarn ''map_node failed (not found in skins)'' [JArr [JHost 99]],
      ConsoleLog ''map_texture'' [JHost 30]])"
  by (simp add: walker_defs export_defs js_defs avatar_obj_def thirdparty_vrm_def
      thirdparty_wire_def thirdparty_blendShapeMaster_def surprised_group_def dangling_bind_def
      map_object_set_def)

text \<open>
  Whatever the mapper and the input, the converted first-person object has no
  \<open>lookAtHorizontalOuter\<close>: the object literal of \<^verbatim>\<open>_convert_firstperson\<close> names the
  three other look-at ranges only.
\<close>

lemma convert_firstperson_no_lookAtHorizontalOuter:
  assumes "convert_firstperson m firstperson = (Inr out, w)"
  shows "prop_of out ''lookAtHorizontalOuter'' = JUndefined"
    and "prop_of out ''lookAtHorizontalInner'' = prop_of firstperson ''lookAtHorizontalInner''"
    and "prop_of out ''lookAtVerticalDown'' = prop_of firstperson ''lookAtVerticalDown''"
    and "prop_of out ''lookAtVerticalUp'' = prop_of firstperson ''lookAtVerticalUp''"
  using assms unfolding convert_firstperson_def
  by (elim js_bind_InrE js_get_InrE; auto)+

lemma convert_vrm_no_lookAtHorizontalOuter:
  assumes "convert_vrm m vrm = (Inr out, w)"
  shows "prop_of (prop_of out ''firstPerson'') ''lookAtHorizontalOuter'' = JUndefined"
proof -
  from assms obtain firstPerson w' where
    "convert_firstperson m (prop_of vrm ''firstPerson'') = (Inr firstPerson, w')"
    "prop_of out ''firstPerson'' = firstPerson"
    unfolding convert_vrm_def by (elim js_bind_InrE js_get_InrE) auto
  then show ?thesis
    by (simp add: convert_firstperson_no_lookAtHorizontalOuter(1))
qed

lemma array_at_number:
  "array_at array_members xs (JNum (real n))
     = js_return (if n < length xs then xs ! n else JUndefined)"
  by (simp add: array_at_def)

lemma parse_vrm_InrE:
  assumes "parse_vrm array_members gltf = (Inr scenes, w)"
  obtains nodes meshes textures exts vrm w0 where
    "convert_vrm (ref_to_real array_members nodes meshes textures)
       (prop_of (JObj exts) ''VRM'') = (Inr vrm, w0)"
    "w = ConsoleLog ''Parsing glTF as VRM'' [] # w0 @ [ConsoleLog [] [vrm]]"
    "scenes = [scene gltf]"
proof -
  from assms obtain nodes where n: "dep_nodes gltf = Some nodes"
    by (cases "dep_nodes gltf") (auto simp: parse_vrm_def js_log_def js_throw_def)
  from assms n obtain meshes where m: "dep_meshes gltf = Some meshes"
    by (cases "dep_meshes gltf") (auto simp: parse_vrm_def js_log_def js_throw_def js_return_def)
  from assms n m obtain exts where e: "parser_json_extensions gltf = Some exts"
    by (cases "parser_json_extensions gltf")
       (auto simp: parse_vrm_def js_log_def js_throw_def js_return_def)
  let ?textures = "case dep_textures gltf of None \<Rightarrow> [] | Some resolved \<Rightarrow> resolved"
  let ?c = "convert_vrm (ref_to_real array_members nodes meshes ?textures)
       (prop_of (JObj exts) ''VRM'')"
  obtain r w0 where c: "?c = (r, w0)" by (cases ?c)
  with assms n m e obtain vrm where r: "r = Inr vrm"
    by (cases r) (auto simp: parse_vrm_def js_log_def js_return_def)
  from assms n m e c r that [of nodes meshes ?textures exts vrm w0] show thesis
    by (auto simp: parse_vrm_def js_log_def js_return_def)
qed

subsection \<open>Unresolved references\<close>

text \<open>
  References that are there. A node that the node map does not know and a mesh reference
  whose first element is not among the skins are emitted as index 0 with a warning on the
  console, without a throw. The bind, mesh annotation, bone or first-person object that
  holds such a reference is converted with its other members unchanged, and the
  conversion of a document in which every bind and mesh annotation has a mesh member
  returns wherever its references point.
\<close>

lemma present_reference_falls_back_to_index_0:
  "(nodeMap_get (nodeMap obj) node_ref = None \<longrightarrow>
      export_map_node obj node_ref
        = (Inr (JNum 0), [ConsoleWarn ''map_node failed (not found in nodeMap)'' [node_ref]]))
   \<and> (\<not> nullish mesh_ref \<and> \<not> resolves_mesh obj mesh_ref \<longrightarrow>
      export_map_mesh obj mesh_ref
        = (Inr (JNum 0), [ConsoleWarn ''map_node failed (not found in skins)'' [mesh_ref]]))
   \<and> (vrm_shaped vrm \<longrightarrow> returns (convert_vrm (ref_to_id obj) vrm))
   \<and> (\<not> nullish b \<and> \<not> nullish (prop_of b ''mesh'') \<and> \<not> resolves_mesh obj (prop_of b ''mesh'') \<longrightarrow>
      convert_blendshape_bind (ref_to_id obj) b
        = (Inr (JObj [(''mesh'', JNum 0), (''index'', prop_of b ''index''),
                      (''weight'', prop_of b ''weight'')]),
           [ConsoleWarn ''map_node failed (not found in skins)'' [prop_of b ''mesh'']]))
   \<and> (\<not> nullish a \<and> \<not> nullish (prop_of a ''mesh'') \<and> \<not> resolves_mesh obj (prop_of a ''mesh'') \<longrightarrow>
      convert_firstperson_meshannotation (ref_to_id obj) a
        = (Inr (JObj [(''mesh'', JNum 0), (''firstPersonFlag'', prop_of a ''firstPersonFlag'')]),
           [ConsoleWarn ''map_node failed (not found in skins)'' [prop_of a ''mesh'']]))
   \<and> (\<not> nullish bone \<and> nodeMap_get (nodeMap obj) (prop_of bone ''node'') = None \<longrightarrow>
      convert_humanoid_bone (ref_to_id obj) bone
        = (Inr (JObj [(''bone'', prop_of bone ''bone''), (''node'', JNum 0),
                      (''useDefaultValues'', prop_of bone ''useDefaultValues''),
                      (''min'', prop_of bone ''min''), (''max'', prop_of bone ''max''),
                      (''center'', prop_of bone ''center''),
                      (''axisLength'', prop_of bone ''axisLength'')]),
           [ConsoleWarn ''map_node failed (not found in nodeMap)'' [prop_of bone ''node'']]))
   \<and> (\<not> nullish fp \<and> nodeMap_get (nodeMap obj) (prop_of fp ''firstPersonBone'') = None
       \<and> js_array_map (convert_firstperson_meshannotation (ref_to_id obj))
            (prop_of fp ''meshAnnotations'') = (Inr annots, w) \<longrightarrow>
      convert_firstperson (ref_to_id obj) fp
        = (Inr (JObj [(''firstPersonBone'', JNum 0),
                      (''firstPersonBoneOffset'', prop_of fp ''firstPersonBoneOffset''),
                      (''meshAnnotations'', annots),
                      (''lookAtTypeName'', prop_of fp ''lookAtTypeName''),
                      (''lookAtHorizontalInner'', prop_of fp ''lookAtHorizontalInner''),
                      (''lookAtVerticalDown'', prop_of fp ''lookAtVerticalDown''),
                      (''lookAtVerticalUp'', prop_of fp ''lookAtVerticalUp'')]),
           ConsoleWarn ''map_node failed (not found in nodeMap)'' [prop_of fp ''firstPersonBone''] # w))"
proof (intro conjI impI; (elim conjE)?)
  show "export_map_node obj node_ref
        = (Inr (JNum 0), [ConsoleWarn ''map_node failed (not found in nodeMap)'' [node_ref]])"
    if "nodeMap_get (nodeMap obj) node_ref = None"
    using that by (rule export_map_node_unresolved)
  show "export_map_mesh obj mesh_ref
        = (Inr (JNum 0), [ConsoleWarn ''map_node failed (not found in skins)'' [mesh_ref]])"
    if "\<not> nullish mesh_ref" "\<not> resolves_mesh obj mesh_ref"
    using that by (rule unresolved_mesh)
  show "returns (convert_vrm (ref_to_id obj) vrm)" if "vrm_shaped vrm"
    using lenient_ref_to_id that by (rule returns_vrm)
  show "convert_blendshape_bind (ref_to_id obj) b
        = (Inr (JObj [(''mesh'', JNum 0), (''index'', prop_of b ''index''),
                      (''weight'', prop_of b ''weight'')]),
           [ConsoleWarn ''map_node failed (not found in skins)'' [prop_of b ''mesh'']])"
    if "\<not> nullish b" "\<not> nullish (prop_of b ''mesh'')" "\<not> resolves_mesh obj (prop_of b ''mesh'')"
    using that by (simp add: convert_blendshape_bind_def ref_to_id_def unresolved_mesh js_return_def)
  show "convert_firstperson_meshannotation (ref_to_id obj) a
        = (Inr (JObj [(''mesh'', JNum 0), (''firstPersonFlag'', prop_of a ''firstPersonFlag'')]),
           [ConsoleWarn ''map_node failed (not found in skins)'' [prop_of a ''mesh'']])"
    if "\<not> nullish a" "\<not> nullish (prop_of a ''mesh'')" "\<not> resolves_mesh obj (prop_of a ''mesh'')"
    using that
    by (simp add: convert_firstperson_meshannotation_def ref_to_id_def unresolved_mesh js_return_def)
  show "convert_humanoid_bone (ref_to_id obj) bone
        = (Inr (JObj [(''bone'', prop_of bone ''bone''), (''node'', JNum 0),
                      (''useDefaultValues'', prop_of bone ''useDefaultValues''),
                      (''min'', prop_of bone ''min''), (''max'', prop_of bone ''max''),
                      (''center'', prop_of bone ''center''),
                      (''axisLength'', prop_of bone ''axisLength'')]),
           [ConsoleWarn ''map_node failed (not found in nodeMap)'' [prop_of bone ''node'']])"
    if "\<not> nullish bone" "nodeMap_get (nodeMap obj) (prop_of bone ''node'') = None"
    using that
    by (simp add: convert_humanoid_bone_def ref_to_id_def export_map_node_unresolved js_return_def)
  show "convert_firstperson (ref_to_id obj) fp
        = (Inr (JObj [(''firstPersonBone'', JNum 0),
                      (''firstPersonBoneOffset'', prop_of fp ''firstPersonBoneOffset''),
                      (''meshAnnotations'', annots),
                      (''lookAtTypeName'', prop_of fp ''lookAtTypeName''),
                      (''lookAtHorizontalInner'', prop_of fp ''lookAtHorizontalInner''),
                      (''lookAtVerticalDown'', prop_of fp ''lookAtVerticalDown''),
                      (''lookAtVerticalUp'', prop_of fp ''lookAtVerticalUp'')]),
           ConsoleWarn ''map_node failed (not found in nodeMap)'' [prop_of fp ''firstPersonBone''] # w)"
    if "\<not> nullish fp" "nodeMap_get (nodeMap obj) (prop_of fp ''firstPersonBone'') = None"
      "js_array_map (convert_firstperson_meshannotation (ref_to_id obj))
            (prop_of fp ''meshAnnotations'') = (Inr annots, w)"
    using that(1,2)
    by (simp add: convert_firstperson_def export_map_node_unresolved js_return_def that(3)
        ref_to_id_def [of obj, THEN arg_cong [of _ _ map_node], simplified])
qed

text \<open>
  Claim C5 at a document whose bind has no mesh member, in an export context with skins.
  The node callback answers a missing node with index 0 and a warning, and a mesh
  reference that is there but unknown is converted in the same way, the rest of the
  document intact. The mesh callback reads element 0 of the missing reference: it throws
  a TypeError, and so does the conversion of the document.
\<close>

theorem missing_mesh_member_throws:
  "convert_vrm (ref_to_id avatar_obj) meshless_vrm = (Inl TypeError, [])
   \<and> convert_blendshape_bind (ref_to_id avatar_obj) meshless_bind = (Inl TypeError, [])
   \<and> export_map_mesh avatar_obj JUndefined = (Inl TypeError, [])
   \<and> export_map_node avatar_obj JUndefined
       = (Inr (JNum 0), [ConsoleWarn ''map_node failed (not found in nodeMap)'' [JUndefined]])
   \<and> convert_humanoid_bone (ref_to_id avatar_obj) nodeless_bone
       = (Inr (JObj [(''bone'', JStr ''hips''), (''node'', JNum 0),
                     (''useDefaultValues'', JBool True), (''min'', JUndefined),
                     (''max'', JUndefined), (''center'', JUndefined),
                     (''axisLength'', JUndefined)]),
          [ConsoleWarn ''map_node failed (not found in nodeMap)'' [JUndefined]])
   \<and> convert_vrm (ref_to_id avatar_obj) thirdparty_vrm
       = (Inr thirdparty_wire,
          [ConsoleWarn ''map_node failed (not found in skins)'' [JArr [JHost 99]],
           ConsoleLog ''map_texture'' [JHost 30]])"
proof -
  have 1: "convert_vrm (ref_to_id avatar_obj) meshless_vrm = (Inl TypeError, [])"
    by (simp add: walker_defs export_defs js_defs avatar_obj_def meshless_vrm_def
        meshless_bind_def)
  have 2: "convert_blendshape_bind (ref_to_id avatar_obj) meshless_bind = (Inl TypeError, [])"
    by (simp add: walker_defs export_defs js_defs avatar_obj_def meshless_bind_def)
  have 3: "export_map_mesh avatar_obj JUndefined = (Inl TypeError, [])"
    by (simp add: export_defs js_defs avatar_obj_def)
  have 4: "export_map_node avatar_obj JUndefined
       = (Inr (JNum 0), [ConsoleWarn ''map_node failed (not found in nodeMap)'' [JUndefined]])"
    by (simp add: export_defs js_defs)
  have 5: "convert_humanoid_bone (ref_to_id avatar_obj) nodeless_bone
       = (Inr (JObj [(''bone'', JStr ''hips''), (''node'', JNum 0),
                     (''useDefaultValues'', JBool True), (''min'', JUndefined),
                     (''max'', JUndefined), (''center'', JUndefined),
                     (''axisLength'', JUndefined)]),
          [ConsoleWarn ''map_node failed (not found in nodeMap)'' [JUndefined]])"
    by (simp add: walker_defs export_defs js_defs nodeless_bone_def)
  from 1 2 3 4 5 thirdparty_export show ?thesis
    by (intro conjI)
qed

subsection \<open>Preset names\<close>

text \<open>
  Claim C6, amended. The conversion emits every blendshape group with the preset name it
  came with, in the same order: a name outside the editor's list stays as it is, and
  groups named \<open>unknown\<close> stay so, as many as there are.
\<close>

theorem presetName_passes_through_unchanged:
  assumes "convert_blendshape m blendshape = (Inr out, w)"
  shows "\<exists>groups groups'.
      prop_of blendshape ''blendShapeGroups'' = JArr groups
    \<and> prop_of out ''blendShapeGroups'' = JArr groups'
    \<and> map (\<lambda>grp. prop_of grp ''presetName'') groups'
        = map (\<lambda>grp. prop_of grp ''presetName'') groups"
proof -
  from assms obtain converted w' where
    c: "js_array_map (convert_blendshape_group m) (prop_of blendshape ''blendShapeGroups'')
          = (Inr converted, w')"
    and out: "out = JObj [(''blendShapeGroups'', converted)]"
    unfolding convert_blendshape_def by (elim js_bind_InrE js_get_InrE) auto
  from c obtain groups groups' where g: "prop_of blendshape ''blendShapeGroups'' = JArr groups"
    "converted = JArr groups'"
    "list_all2 (\<lambda>x y. \<exists>w'. convert_blendshape_group m x = (Inr y, w')) groups groups'"
    by (rule js_array_map_InrE)
  from g(3) have "list_all2 (\<lambda>x y. prop_of y ''presetName'' = prop_of x ''presetName'') groups groups'"
    by (rule list_all2_mono) (auto dest: convert_blendshape_group_presetName)
  then have "map (\<lambda>grp. prop_of grp ''presetName'') groups'
        = map (\<lambda>grp. prop_of grp ''presetName'') groups"
    by (induction rule: list_all2_induct) simp_all
  with g out show ?thesis by simp
qed

theorem presetName_passes_through_unchanged_witness:
  "\<exists>groups'.
     prop_of (projr (fst (convert_blendshape (ref_to_id avatar_obj) thirdparty_blendShapeMaster)))
       ''blendShapeGroups'' = JArr groups'
   \<and> map (\<lambda>grp. prop_of grp ''presetName'') groups'
       = [JStr ''surprised'', JStr ''unknown'', JStr ''unknown'']"
proof -
  from presetName_passes_through_unchanged [OF thirdparty_blendshape_export]
  obtain groups groups' where
    g: "prop_of thirdparty_blendShapeMaster ''blendShapeGroups'' = JArr groups"
    and g': "prop_of (projr (fst (convert_blendshape (ref_to_id avatar_obj)
               thirdparty_blendShapeMaster))) ''blendShapeGroups'' = JArr groups'"
    and m: "map (\<lambda>grp. prop_of grp ''presetName'') groups'
        = map (\<lambda>grp. prop_of grp ''presetName'') groups"
    unfolding thirdparty_blendshape_export by auto
  from g have "map (\<lambda>grp. prop_of grp ''presetName'') groups
     = [JStr ''surprised'', JStr ''unknown'', JStr ''unknown'']"
    by (auto simp: thirdparty_blendShapeMaster_def surprised_group_def)
  with g' m show ?thesis by simp
qed

text \<open>
  The group named \<open>Surprised\<close> has the preset name \<open>surprised\<close>, which is not in the
  editor's list; it is emitted with that name, not with \<open>unknown\<close>.
\<close>

theorem presetName_not_normalized_counterexample:
  "''surprised'' \<notin> knownNames
   \<and> prop_of (projr (fst (convert_blendshape_group (ref_to_id avatar_obj) surprised_group)))
        ''presetName'' = JStr ''surprised''
   \<and> prop_of (projr (fst (convert_blendshape_group (ref_to_id avatar_obj) surprised_group)))
        ''presetName'' \<noteq> JStr ''unknown''"
  by (simp add: knownNames_def EMOTION_PRESET_GROUPING_def walker_defs export_defs js_defs
      avatar_obj_def surprised_group_def dangling_bind_def)

subsection \<open>Mesh references\<close>

text \<open>
  Claim C7, amended. On export a mesh reference is looked up in the exporter's list of
  skins, not of meshes: the emitted index is the position of the first skin that is the
  first element of the reference, and 0 with a warning when no skin is. The mesh member
  of every converted bind and of every converted mesh annotation is the result of this
  lookup.
\<close>

theorem mesh_reference_resolved_through_skins:
  assumes "js_first mesh_ref = (Inr first, [])"
  shows "map_mesh (ref_to_id obj) = export_map_mesh obj
    \<and> (\<forall>n < length (skins obj).
          JHost (skins obj ! n) = first \<and> (\<forall>k < n. JHost (skins obj ! k) \<noteq> first)
          \<longrightarrow> export_map_mesh obj mesh_ref = (Inr (JNum (real n)), []))
    \<and> ((\<forall>e \<in> set (skins obj). JHost e \<noteq> first)
          \<longrightarrow> export_map_mesh obj mesh_ref
              = (Inr (JNum 0), [ConsoleWarn ''map_node failed (not found in skins)'' [mesh_ref]]))
    \<and> (\<forall>b out w. convert_blendshape_bind (ref_to_id obj) b = (Inr out, w)
          \<longrightarrow> (\<exists>w'. export_map_mesh obj (prop_of b ''mesh'') = (Inr (prop_of out ''mesh''), w')))
    \<and> (\<forall>a out w. convert_firstperson_meshannotation (ref_to_id obj) a = (Inr out, w)
          \<longrightarrow> (\<exists>w'. export_map_mesh obj (prop_of a ''mesh'') = (Inr (prop_of out ''mesh''), w')))"
proof (intro conjI allI impI)
  show "map_mesh (ref_to_id obj) = export_map_mesh obj"
    by (simp add: ref_to_id_def)
next
  fix n
  assume "n < length (skins obj)"
    and "JHost (skins obj ! n) = first \<and> (\<forall>k < n. JHost (skins obj ! k) \<noteq> first)"
  then have "findIndex (\<lambda>e. JHost e = first) (skins obj) = int n"
    by (intro findIndex_first) simp_all
  then show "export_map_mesh obj mesh_ref = (Inr (JNum (real n)), [])"
    by (simp add: export_map_mesh_first [OF assms])
next
  assume "\<forall>e \<in> set (skins obj). JHost e \<noteq> first"
  then have "findIndex (\<lambda>e. JHost e = first) (skins obj) < 0"
    by (simp add: findIndex_none)
  then show "export_map_mesh obj mesh_ref
      = (Inr (JNum 0), [ConsoleWarn ''map_node failed (not found in skins)'' [mesh_ref]])"
    by (simp add: export_map_mesh_first [OF assms])
next
  fix b out w
  assume "convert_blendshape_bind (ref_to_id obj) b = (Inr out, w)"
  from convert_blendshape_bind_mesh [OF this]
  show "\<exists>w'. export_map_mesh obj (prop_of b ''mesh'') = (Inr (prop_of out ''mesh''), w')"
    by (simp add: ref_to_id_def)
next
  fix a out w
  assume "convert_firstperson_meshannotation (ref_to_id obj) a = (Inr out, w)"
  from convert_firstperson_meshannotation_mesh [OF this]
  show "\<exists>w'. export_map_mesh obj (prop_of a ''mesh'') = (Inr (prop_of out ''mesh''), w')"
    by (simp add: ref_to_id_def)
qed

theorem mesh_reference_resolved_through_skins_witness:
  "js_first (JArr [JHost 22]) = (Inr (JHost 22), [])
   \<and> JHost (skins avatar_obj ! 2) = JHost 22
   \<and> export_map_mesh avatar_obj (JArr [JHost 22]) = (Inr (JNum 2), [])
   \<and> export_map_mesh avatar_obj (JArr [JHost 99])
       = (Inr (JNum 0), [ConsoleWarn ''map_node failed (not found in skins)'' [JArr [JHost 99]]])
   \<and> (\<exists>w'. export_map_mesh avatar_obj (prop_of dangling_bind ''mesh'') = (Inr (JNum 0), w'))
   \<and> (\<exists>w'. export_map_mesh avatar_obj (prop_of dangling_annotation ''mesh'') = (Inr (JNum 0), w'))"
proof -
  have f99: "js_first (JArr [JHost 99]) = (Inr (JHost 99), [])"
    by (simp add: js_return_def)
  have none: "\<forall>e \<in> set (skins avatar_obj). JHost e \<noteq> JHost 99"
    by (simp add: avatar_obj_def)
  have b: "convert_blendshape_bind (ref_to_id avatar_obj) dangling_bind
     = (Inr (JObj [(''mesh'', JNum 0), (''index'', JNum 3), (''weight'', JNum 100)]),
        [ConsoleWarn ''map_node failed (not found in skins)'' [JArr [JHost 99]]])"
    by (simp add: walker_defs export_defs js_defs avatar_obj_def dangling_bind_def)
  have a: "convert_firstperson_meshannotation (ref_to_id avatar_obj) dangling_annotation
     = (Inr (JObj [(''mesh'', JNum 0), (''firstPersonFlag'', JStr ''Auto'')]),
        [ConsoleWarn ''map_node failed (not found in skins)'' [JArr [JHost 99]]])"
    by (simp add: walker_defs export_defs js_defs avatar_obj_def dangling_annotation_def)
  from mesh_reference_resolved_through_skins [OF f99, of avatar_obj] none b a
  have unresolved: "export_map_mesh avatar_obj (JArr [JHost 99])
       = (Inr (JNum 0), [ConsoleWarn ''map_node failed (not found in skins)'' [JArr [JHost 99]]])"
    "\<exists>w'. export_map_mesh avatar_obj (prop_of dangling_bind ''mesh'') = (Inr (JNum 0), w')"
    "\<exists>w'. export_map_mesh avatar_obj (prop_of dangling_annotation ''mesh'') = (Inr (JNum 0), w')"
    by (blast, fastforce, fastforce)
  have f: "js_first (JArr [JHost 22]) = (Inr (JHost 22), [])"
    by (simp add: js_return_def)
  have s: "skins avatar_obj = [20, 21, 22]"
    by (simp add: avatar_obj_def)
  have "(2::nat) < length (skins avatar_obj)"
    "JHost (skins avatar_obj ! 2) = JHost 22 \<and> (\<forall>k < 2. JHost (skins avatar_obj ! k) \<noteq> JHost 22)"
    by (simp_all add: s less_Suc_eq numeral_2_eq_2)
  with mesh_reference_resolved_through_skins [OF f, of avatar_obj] f unresolved
  show ?thesis by (simp del: js_first.simps)
qed

text \<open>
  With skins 20, 21, 22 the reference \<open>[22]\<close> is emitted as index 2, the position of the
  skin that is its first element, while no skin has the reference as its first element.
\<close>

theorem skin_lookup_counterexample:
  "export_map_mesh avatar_obj (JArr [JHost 22]) = (Inr (JNum 2), [])
   \<and> skin_with_first_element (skins avatar_obj) (JArr [JHost 22]) = - 1"
  by (simp add: export_defs js_defs avatar_obj_def skin_with_first_element_def)

subsection \<open>The extensions-used declaration\<close>

text \<open>
  Claim C9. When the attachment step returns, the document's \<open>extensionsUsed\<close> contains
  \<open>VRM\<close> and no entry twice. Running the step again on the resulting document with the
  same extension returns as well, and any further run that returns leaves
  \<open>extensionsUsed\<close> as it is.
\<close>

theorem extensionsUsed_has_VRM_once:
  assumes "attach_vrm_extension vrm_ext obj = (Inr obj', w)"
  shows "\<exists>used. extensionsUsed (json obj') = Some used \<and> ''VRM'' \<in> set used \<and> distinct used
     \<and> (\<exists>obj'' w'. attach_vrm_extension vrm_ext obj' = (Inr obj'', w')
            \<and> extensionsUsed (json obj'') = Some used)
     \<and> (\<forall>vrm_ext' obj'' w'. attach_vrm_extension vrm_ext' obj' = (Inr obj'', w')
            \<longrightarrow> extensionsUsed (json obj'') = Some used)"
proof -
  let ?old = "case extensionsUsed (json obj) of None \<Rightarrow> [] | Some used \<Rightarrow> used"
  let ?used = "array_from_set (''VRM'' # ?old)"
  from assms obtain ext w0 where n: "\<not> nullish vrm_ext"
    and c: "convert_vrm (ref_to_id obj) (prop_of vrm_ext ''vrm'') = (Inr ext, w0)"
    and u: "extensionsUsed (json obj') = Some ?used"
    and same: "nodeMap obj' = nodeMap obj" "skins obj' = skins obj"
    by (rule attach_vrm_extension_InrE) simp
  have 1: "''VRM'' \<in> set ?used" "distinct ?used"
    by (simp_all add: array_from_set_distinct)
  have again: "extensionsUsed (json obj'') = Some ?used"
    if "attach_vrm_extension vrm_ext' obj' = (Inr obj'', w')" for vrm_ext' obj'' w'
    using that by (rule attach_vrm_extension_InrE) (simp add: u array_from_set_again)
  from c have "convert_vrm (ref_to_id obj') (prop_of vrm_ext ''vrm'') = (Inr ext, w0)"
    by (simp add: ref_to_id_cong [OF same])
  from attach_vrm_extension_returns [OF n this]
  obtain obj'' w' where 2: "attach_vrm_extension vrm_ext obj' = (Inr obj'', w')"
    by blast
  from again [OF 2] 2 have 3: "\<exists>obj'' w'. attach_vrm_extension vrm_ext obj' = (Inr obj'', w')
            \<and> extensionsUsed (json obj'') = Some ?used"
    by blast
  from u 1 3 again show ?thesis
    by (intro exI [of _ ?used]) blast
qed

theorem extensionsUsed_has_VRM_once_witness:
  "\<exists>obj' w. attach_vrm_extension avatar_ext avatar_obj = (Inr obj', w)
     \<and> extensionsUsed (json obj') = Some [''VRM'', ''KHR_materials_unlit'']
     \<and> (\<exists>obj'' w'. attach_vrm_extension avatar_ext obj' = (Inr obj'', w')
            \<and> extensionsUsed (json obj'') = Some [''VRM'', ''KHR_materials_unlit''])"
proof -
  have n: "\<not> nullish avatar_ext"
    by (simp add: avatar_ext_def nullish_def)
  have c: "convert_vrm (ref_to_id avatar_obj) (prop_of avatar_ext ''vrm'') = (Inr avatar_wire, [])"
    using avatar_export by (simp add: avatar_ext_def)
  from attach_vrm_extension_returns [OF n c]
  obtain obj' w where h: "attach_vrm_extension avatar_ext avatar_obj = (Inr obj', w)"
    and u: "extensionsUsed (json obj') = Some (array_from_set
           (''VRM'' # (case extensionsUsed (json avatar_obj) of None \<Rightarrow> [] | Some used \<Rightarrow> used)))"
    by simp
  from u have u': "extensionsUsed (json obj') = Some [''VRM'', ''KHR_materials_unlit'']"
    by (simp add: avatar_obj_def avatar_json_def array_from_set_def set_add_def)
  from extensionsUsed_has_VRM_once [OF h] u'
  have "\<exists>obj'' w'. attach_vrm_extension avatar_ext obj' = (Inr obj'', w')
            \<and> extensionsUsed (json obj'') = Some [''VRM'', ''KHR_materials_unlit'']"
    by auto
  with h u' show ?thesis by blast
qed

subsection \<open>Round trip\<close>

text \<open>
  Claim C1 at the example document, whose references all resolve: export followed by
  import gives back the blendshape master and the humanoid as they were, and the
  first-person object without its \<open>lookAtHorizontalOuter\<close> member, which the walker
  does not copy.
\<close>

theorem roundtrip_loses_lookAtHorizontalOuter:
  "roundtrip avatar_obj sample_array_members avatar_nodes avatar_meshes [] avatar_vrm =
     (Inr (JObj [(''blendShapeMaster'', avatar_blendShapeMaster),
                 (''humanoid'', avatar_humanoid),
                 (''firstPerson'',
                    JObj [(''firstPersonBone'', JHost 11),
                          (''firstPersonBoneOffset'',
                             JObj [(''x'', JNum 0), (''y'', JNum 0.06), (''z'', JNum 0)]),
                          (''meshAnnotations'', JArr [
                             JObj [(''mesh'', JArr [JHost 20]), (''firstPersonFlag'', JStr ''Auto'')]]),
                          (''lookAtTypeName'', JStr ''Bone''),
                          (''lookAtHorizontalInner'', JNum 90),
                          (''lookAtVerticalDown'', JNum 70),
                          (''lookAtVerticalUp'', JNum 60)]),
                 (''materialProperties'', JArr []),
                 (''meta'', JObj [(''title'', JStr ''Avatar'')]),
                 (''secondaryAnimation'', JObj [])]), [])
   \<and> prop_of (prop_of avatar_vrm ''firstPerson'') ''lookAtHorizontalOuter'' = JNum 80
   \<and> prop_of (prop_of (projr (fst (roundtrip avatar_obj sample_array_members avatar_nodes avatar_meshes [] avatar_vrm)))
        ''firstPerson'') ''lookAtHorizontalOuter'' = JUndefined"
proof -
  have r: "roundtrip avatar_obj sample_array_members avatar_nodes avatar_meshes [] avatar_vrm =
     (Inr (JObj [(''blendShapeMaster'', avatar_blendShapeMaster),
                 (''humanoid'', avatar_humanoid),
                 (''firstPerson'',
                    JObj [(''firstPersonBone'', JHost 11),
                          (''firstPersonBoneOffset'',
                             JObj [(''x'', JNum 0), (''y'', JNum 0.06), (''z'', JNum 0)]),
                          (''meshAnnotations'', JArr [
                             JObj [(''mesh'', JArr [JHost 20]), (''firstPersonFlag'', JStr ''Auto'')]]),
                          (''lookAtTypeName'', JStr ''Bone''),
                          (''lookAtHorizontalInner'', JNum 90),
                          (''lookAtVerticalDown'', JNum 70),
                          (''lookAtVerticalUp'', JNum 60)]),
                 (''materialProperties'', JArr []),
                 (''meta'', JObj [(''title'', JStr ''Avatar'')]),
                 (''secondaryAnimation'', JObj [])]), [])"
    unfolding roundtrip_def avatar_export
    by (simp add: walker_defs import_defs js_defs avatar_nodes_def avatar_meshes_def
        avatar_blendShapeMaster_def avatar_humanoid_def avatar_wire_def)
  show ?thesis
    unfolding r by (simp add: avatar_vrm_def avatar_firstPerson_def)
qed

subsection \<open>Spring-bone data on import\<close>

lemma springy_import:
  "convert_vrm (ref_to_real sample_array_members avatar_nodes avatar_meshes [JHost 30]) springy_wire
     = (Inr springy_vrm, [])"
  by (simp add: walker_defs import_defs js_defs map_object_set_def avatar_nodes_def
      springy_wire_def springy_vrm_def)

text \<open>
  Claim C10. Whatever the wire document holds under \<open>secondaryAnimation\<close>, the extension
  that the import conversion produces has an empty object there; this is the extension
  that \<open>parse_vrm\<close> writes to the console.
\<close>

theorem import_discards_secondaryAnimation:
  "(convert_vrm (ref_to_real array_members nodes meshes textures) wire = (Inr vrm, w)
      \<longrightarrow> prop_of vrm ''secondaryAnimation'' = JObj [])
   \<and> (parse_vrm array_members gltf = (Inr scenes, w')
      \<longrightarrow> (\<exists>vrm'. last w' = ConsoleLog [] [vrm'] \<and> prop_of vrm' ''secondaryAnimation'' = JObj []))"
proof (intro conjI impI)
  assume "convert_vrm (ref_to_real array_members nodes meshes textures) wire = (Inr vrm, w)"
  then show "prop_of vrm ''secondaryAnimation'' = JObj []"
    by (rule convert_vrm_secondaryAnimation)
next
  assume "parse_vrm array_members gltf = (Inr scenes, w')"
  then obtain resolved_nodes resolved_meshes resolved_textures exts vrm' w0 where
    c: "convert_vrm (ref_to_real array_members resolved_nodes resolved_meshes resolved_textures)
       (prop_of (JObj exts) ''VRM'') = (Inr vrm', w0)"
    and w: "w' = ConsoleLog ''Parsing glTF as VRM'' [] # w0 @ [ConsoleLog [] [vrm']]"
    by (rule parse_vrm_InrE)
  from w have "last w' = ConsoleLog [] [vrm']" by simp
  with convert_vrm_secondaryAnimation [OF c]
  show "\<exists>vrm'. last w' = ConsoleLog [] [vrm'] \<and> prop_of vrm' ''secondaryAnimation'' = JObj []"
    by blast
qed

theorem import_discards_secondaryAnimation_witness:
  "convert_vrm (ref_to_real sample_array_members avatar_nodes avatar_meshes [JHost 30]) springy_wire
     = (Inr springy_vrm, [])
   \<and> prop_of springy_vrm ''secondaryAnimation'' = JObj []
   \<and> prop_of springy_wire ''secondaryAnimation''
       = JObj [(''boneGroups'', JArr [JObj [(''stiffiness'', JNum 1)]]), (''colliderGroups'', JArr [])]
   \<and> parse_vrm sample_array_members springy_gltf
       = (Inr [JHost 1], [ConsoleLog ''Parsing glTF as VRM'' [], ConsoleLog [] [springy_vrm]])
   \<and> (\<exists>vrm'. last [ConsoleLog ''Parsing glTF as VRM'' [], ConsoleLog [] [springy_vrm]]
                 = ConsoleLog [] [vrm']
            \<and> prop_of vrm' ''secondaryAnimation'' = JObj [])"
proof -
  note h = springy_import
  from import_discards_secondaryAnimation
    [of sample_array_members avatar_nodes avatar_meshes "[JHost 30]" springy_wire springy_vrm "[]"] h
  have 1: "prop_of springy_vrm ''secondaryAnimation'' = JObj []"
    by blast
  from h have p: "parse_vrm sample_array_members springy_gltf
      = (Inr [JHost 1], [ConsoleLog ''Parsing glTF as VRM'' [], ConsoleLog [] [springy_vrm]])"
    by (simp add: parse_vrm_def springy_gltf_def js_log_def js_return_def)
  from import_discards_secondaryAnimation
    [where array_members = sample_array_members and gltf = springy_gltf
       and scenes = "[JHost 1]"
       and w' = "[ConsoleLog ''Parsing glTF as VRM'' [], ConsoleLog [] [springy_vrm]]"] p
  have 2: "\<exists>vrm'. last [ConsoleLog ''Parsing glTF as VRM'' [], ConsoleLog [] [springy_vrm]]
                 = ConsoleLog [] [vrm']
            \<and> prop_of vrm' ''secondaryAnimation'' = JObj []"
    by blast
  have 3: "prop_of springy_wire ''secondaryAnimation''
         = JObj [(''boneGroups'', JArr [JObj [(''stiffiness'', JNum 1)]]), (''colliderGroups'', JArr [])]"
    by (simp add: springy_wire_def)
  from h 1 2 3 p show ?thesis by blast
qed

end
